theory Spec2Isabelle
  imports Complex_Main "HOL-Library.Multiset"
begin

section \<open>Python values and exceptions\<close>

text \<open>
  The repository is Python. Its numbers are modelled as \<open>real\<close> (ints and floats without
  rounding, overflow or NaN), its strings as \<open>string\<close>, its exceptions as values of
  \<open>py_error\<close>, and a call that may raise returns \<open>py_error + 'a\<close> with \<open>Inl\<close> the
  exception.
\<close>

datatype py_error =
    ValueError string
  | KeyError string
  | IndexError
  | TypeError
  | AttributeError
  | ZeroDivisionError
  | AssertionError
  | FileNotFoundError
  | UnpicklingError

definition py_bind :: "py_error + 'a \<Rightarrow> ('a \<Rightarrow> py_error + 'b) \<Rightarrow> py_error + 'b" where
  "py_bind m f = (case m of Inl e \<Rightarrow> Inl e | Inr x \<Rightarrow> f x)"

fun py_all :: "(py_error + 'a) list \<Rightarrow> py_error + 'a list" where
  "py_all [] = Inr []"
| "py_all (m # ms) = py_bind m (\<lambda>x. py_bind (py_all ms) (\<lambda>xs. Inr (x # xs)))"

section \<open>backend/data\_processor.py\<close>

subsection \<open>The workbook\<close>

text \<open>
  \<open>pd.read_excel(file_path, sheet_name=None)\<close> returns a dict from sheet names to data
  frames. A frame is its list of rows, in sheet order. A cell of a column that the code
  passes through \<open>pd.to_numeric(..., errors='coerce')\<close> is a \<open>cell\<close>: a number, a text
  that reads as a number, any other text, or the missing value. A cell of a column that
  the code passes through \<open>pd.to_datetime\<close> is a \<open>date_cell\<close>: a point in time (an
  integer count of time units; also a text or number that reads as one), a text that
  does not read as a date, or the missing value \<open>NaT\<close> of a blank cell.
  A sheet that lacks the columns the code reads from it is a sheet of another kind, and
  reading the column raises \<open>KeyError\<close>.
\<close>

datatype cell = Num real | NumText real | Text string | NaN

datatype date_cell = DateAt int | DateText string | NaT

record overview_row =
  Fund_Name :: string
  Total_AUM :: cell
  Base_Currency :: string
  Target_Return :: cell
  Risk_Level :: string
  Benchmark :: string
  Inception_Date :: date_cell
  Last_Updated :: date_cell

record holding =
  Asset_Name :: string
  Ticker_Symbol :: string
  Sector :: string
  Purchase_Date :: date_cell
  Market_Value :: cell
  Units_Held :: cell
  Average_Cost :: cell
  Current_Price :: cell
  Weight_Percent :: cell
  Dividend_Yield :: cell

record series_row =
  Date :: date_cell
  nums :: "string \<rightharpoonup> real"

datatype sheet =
    Overview "overview_row list"
  | Holdings "holding list"
  | Series "series_row list"

type_synonym workbook = "string \<rightharpoonup> sheet"

subsection \<open>load\_excel\_file: sheet validation\<close>

definition expected_sheets :: "string list" where
  "expected_sheets =
     [''Portfolio_Overview'', ''Holdings_Detail'', ''Historical_Performance'',
      ''Benchmarks'', ''Risk_Metrics'', ''Cash_Flows'', ''Market_Data'']"

text \<open>\<open>for sheet in expected_sheets: if sheet not in excel_data: raise ValueError(...)\<close>\<close>

fun validate_sheets :: "string list \<Rightarrow> workbook \<Rightarrow> py_error + unit" where
  "validate_sheets [] excel_data = Inr ()"
| "validate_sheets (sheet # rest) excel_data =
     (if excel_data sheet = None
      then Inl (ValueError (''Missing required sheet: '' @ sheet))
      else validate_sheets rest excel_data)"

subsection \<open>\_clean\_data\<close>

text \<open>\<open>pd.to_numeric(col, errors='coerce')\<close>: what does not read as a number becomes NaN.\<close>

fun to_numeric :: "cell \<Rightarrow> cell" where
  "to_numeric (Num r) = Num r"
| "to_numeric (NumText r) = Num r"
| "to_numeric (Text s) = NaN"
| "to_numeric NaN = NaN"

text \<open>
  \<open>pd.to_datetime(cell)\<close>: a blank cell becomes \<open>NaT\<close>, a text that is no date raises
  \<open>ValueError\<close>. \<open>df[c] = pd.to_datetime(df[c])\<close> converts the column of every row.
\<close>

fun to_datetime :: "date_cell \<Rightarrow> py_error + date_cell" where
  "to_datetime (DateAt t) = Inr (DateAt t)"
| "to_datetime NaT = Inr NaT"
| "to_datetime (DateText s) = Inl (ValueError (''Unknown datetime string format: '' @ s))"

definition to_datetime_column ::
  "('r \<Rightarrow> date_cell) \<Rightarrow> (date_cell \<Rightarrow> 'r \<Rightarrow> 'r) \<Rightarrow> 'r list \<Rightarrow> py_error + 'r list" where
  "to_datetime_column get_cell set_cell rows =
     py_all (map (\<lambda>r. py_bind (to_datetime (get_cell r)) (\<lambda>d. Inr (set_cell d r))) rows)"

definition clean_overview_row :: "overview_row \<Rightarrow> overview_row" where
  "clean_overview_row r =
     r\<lparr>Total_AUM := to_numeric (Total_AUM r), Target_Return := to_numeric (Target_Return r)\<rparr>"

definition clean_holding :: "holding \<Rightarrow> holding" where
  "clean_holding h =
     h\<lparr>Market_Value := to_numeric (Market_Value h),
       Units_Held := to_numeric (Units_Held h),
       Average_Cost := to_numeric (Average_Cost h),
       Current_Price := to_numeric (Current_Price h),
       Weight_Percent := to_numeric (Weight_Percent h),
       Dividend_Yield := to_numeric (Dividend_Yield h)\<rparr>"

definition clean_overview :: "workbook \<Rightarrow> py_error + workbook" where
  "clean_overview wb =
     (case wb ''Portfolio_Overview'' of
        None \<Rightarrow> Inr wb
      | Some (Overview rows) \<Rightarrow>
          py_bind (to_datetime_column Inception_Date (\<lambda>d r. r\<lparr>Inception_Date := d\<rparr>) rows)
            (\<lambda>rows1.
          py_bind (to_datetime_column Last_Updated (\<lambda>d r. r\<lparr>Last_Updated := d\<rparr>) rows1)
            (\<lambda>rows2.
            Inr (wb(''Portfolio_Overview'' \<mapsto> Overview (map clean_overview_row rows2)))))
      | Some _ \<Rightarrow> Inl (KeyError ''Inception_Date''))"

definition clean_holdings :: "workbook \<Rightarrow> py_error + workbook" where
  "clean_holdings wb =
     (case wb ''Holdings_Detail'' of
        None \<Rightarrow> Inr wb
      | Some (Holdings rows) \<Rightarrow>
          py_bind (to_datetime_column Purchase_Date (\<lambda>d r. r\<lparr>Purchase_Date := d\<rparr>) rows)
            (\<lambda>rows1.
            Inr (wb(''Holdings_Detail'' \<mapsto> Holdings (map clean_holding rows1))))
      | Some _ \<Rightarrow> Inl (KeyError ''Purchase_Date''))"

definition time_series_sheets :: "string list" where
  "time_series_sheets =
     [''Historical_Performance'', ''Benchmarks'', ''Risk_Metrics'', ''Cash_Flows'',
      ''Market_Data'']"

text \<open>
  \<open>df.sort_values('Date')\<close>: the dated rows ascending by date, then the rows whose date
  is \<open>NaT\<close> (\<open>na_position='last'\<close>, the default). The model keeps rows of equal date,
  and the undated rows, in sheet order, which pandas does not promise for equal dates;
  nothing proved below depends on the order among equal dates. The numeric columns of a
  time-series sheet are numbers already, so the loop over
  \<open>select_dtypes(include=[np.number])\<close> leaves them unchanged.
\<close>

fun is_date :: "date_cell \<Rightarrow> bool" where
  "is_date (DateAt t) = True"
| "is_date _ = False"

fun date_value :: "date_cell \<Rightarrow> int" where
  "date_value (DateAt t) = t"
| "date_value _ = 0"

definition sort_values_Date :: "series_row list \<Rightarrow> series_row list" where
  "sort_values_Date rows =
     sort_key (\<lambda>r. date_value (Date r)) (filter (\<lambda>r. is_date (Date r)) rows) @
     filter (\<lambda>r. \<not> is_date (Date r)) rows"

fun clean_series :: "string list \<Rightarrow> workbook \<Rightarrow> py_error + workbook" where
  "clean_series [] wb = Inr wb"
| "clean_series (sheet_name # rest) wb =
     (case wb sheet_name of
        None \<Rightarrow> clean_series rest wb
      | Some (Series rows) \<Rightarrow>
          py_bind (to_datetime_column Date (\<lambda>d r. r\<lparr>Date := d\<rparr>) rows) (\<lambda>rows1.
            clean_series rest (wb(sheet_name \<mapsto> Series (sort_values_Date rows1))))
      | Some _ \<Rightarrow> Inl (KeyError ''Date''))"

definition clean_data :: "workbook \<Rightarrow> py_error + workbook" where
  "clean_data wb =
     py_bind (clean_overview wb) (\<lambda>wb1.
     py_bind (clean_holdings wb1) (\<lambda>wb2.
     clean_series time_series_sheets wb2))"

subsection \<open>\_calculate\_metrics\<close>

record portfolio_summary =
  fund_name :: string
  total_aum :: cell
  base_currency :: string
  target_return :: cell
  risk_level :: string
  benchmark :: string
  total_holdings :: nat
  total_market_value :: real
  inception_date :: date_cell

record performance_summary =
  current_value :: real
  total_return :: real
  daily_return :: real
  volatility :: real
  sharpe_ratio :: real
  max_drawdown :: real
  active_return :: real

record risk_summary =
  portfolio_beta :: real
  var_95 :: real
  cvar_95 :: real
  tracking_error :: real
  correlation_benchmark :: real
  concentration_risk :: real
  liquidity_score :: real

datatype field_value = StrV string | CellV cell

record processed =
  p_portfolio_summary :: "portfolio_summary option"
  p_top_holdings :: "(string \<times> field_value) list list option"
  p_sector_allocation :: "(string \<times> real) list option"
  p_performance_summary :: "performance_summary option"
  p_risk_summary :: "risk_summary option"

text \<open>The value of a numeric cell; NaN has none.\<close>

fun cell_value :: "cell \<Rightarrow> real option" where
  "cell_value (Num r) = Some r"
| "cell_value _ = None"

fun is_numeric :: "cell \<Rightarrow> bool" where
  "is_numeric (Num r) = True"
| "is_numeric NaN = True"
| "is_numeric _ = False"

text \<open>\<open>Series.sum()\<close> skips NaN.\<close>

definition column_sum :: "cell list \<Rightarrow> real" where
  "column_sum cs = sum_list (map (\<lambda>c. case cell_value c of None \<Rightarrow> 0 | Some r \<Rightarrow> r) cs)"

text \<open>
  \<open>holdings.nlargest(n, 'Market_Value')\<close>: the rows that have a value, by descending
  value and in sheet order among equal values (\<open>keep='first'\<close>), then the NaN rows in
  sheet order; the first \<open>n\<close> of those. A column that is not numeric raises TypeError.
\<close>

definition has_value :: "holding \<Rightarrow> bool" where
  "has_value h = (cell_value (Market_Value h) \<noteq> None)"

definition market_value :: "holding \<Rightarrow> real" where
  "market_value h = (case cell_value (Market_Value h) of None \<Rightarrow> 0 | Some r \<Rightarrow> r)"

definition by_market_value :: "holding list \<Rightarrow> holding list" where
  "by_market_value hs =
     sort_key (\<lambda>h. - market_value h) (filter has_value hs) @ filter (\<lambda>h. \<not> has_value h) hs"

definition nlargest :: "nat \<Rightarrow> holding list \<Rightarrow> py_error + holding list" where
  "nlargest n hs =
     (if \<forall>h \<in> set hs. is_numeric (Market_Value h)
      then Inr (take n (by_market_value hs))
      else Inl TypeError)"

text \<open>\<open>[['Asset_Name', 'Ticker_Symbol', 'Market_Value', 'Weight_Percent', 'Sector']].to_dict('records')\<close>\<close>

definition holding_record :: "holding \<Rightarrow> (string \<times> field_value) list" where
  "holding_record h =
     [(''Asset_Name'', StrV (Asset_Name h)),
      (''Ticker_Symbol'', StrV (Ticker_Symbol h)),
      (''Market_Value'', CellV (Market_Value h)),
      (''Weight_Percent'', CellV (Weight_Percent h)),
      (''Sector'', StrV (Sector h))]"

text \<open>
  \<open>holdings.groupby('Sector')['Market_Value'].sum().sort_values(ascending=False).to_dict()\<close>:
  one entry per sector, its value the sum over the sector's rows, entries by descending
  sum.
\<close>

definition sector_sum :: "holding list \<Rightarrow> string \<Rightarrow> real" where
  "sector_sum hs s = column_sum (map Market_Value (filter (\<lambda>h. Sector h = s) hs))"

definition group_sectors :: "holding list \<Rightarrow> (string \<times> real) list" where
  "group_sectors hs =
     sort_key (\<lambda>(s, v). - v) (map (\<lambda>s. (s, sector_sum hs s)) (remdups (map Sector hs)))"

text \<open>\<open>row['Column']\<close> on a row of a time-series sheet.\<close>

definition col :: "series_row \<Rightarrow> string \<Rightarrow> py_error + real" where
  "col r c = (case nums r c of None \<Rightarrow> Inl (KeyError c) | Some v \<Rightarrow> Inr v)"

text \<open>\<open>df.iloc[-1]\<close> and \<open>df.iloc[0]\<close>: IndexError on an empty frame.\<close>

definition iloc_last :: "'a list \<Rightarrow> py_error + 'a" where
  "iloc_last rows = (if rows = [] then Inl IndexError else Inr (last rows))"

definition iloc_first :: "'a list \<Rightarrow> py_error + 'a" where
  "iloc_first rows = (case rows of [] \<Rightarrow> Inl IndexError | r # _ \<Rightarrow> Inr r)"

definition summarise_portfolio :: "workbook \<Rightarrow> py_error + portfolio_summary option" where
  "summarise_portfolio wb =
     (case (wb ''Portfolio_Overview'', wb ''Holdings_Detail'') of
        (Some ov, Some hsheet) \<Rightarrow>
          (case ov of
             Overview rows \<Rightarrow>
               py_bind (iloc_first rows) (\<lambda>portfolio.
                 (case hsheet of
                    Holdings holdings \<Rightarrow>
                      if \<forall>h \<in> set holdings. is_numeric (Market_Value h)
                      then Inr (Some
                        \<lparr>fund_name = Fund_Name portfolio,
                         total_aum = Total_AUM portfolio,
                         base_currency = Base_Currency portfolio,
                         target_return = Target_Return portfolio,
                         risk_level = Risk_Level portfolio,
                         benchmark = Benchmark portfolio,
                         total_holdings = length holdings,
                         total_market_value = column_sum (map Market_Value holdings),
                         inception_date = Inception_Date portfolio\<rparr>)
                      else Inl TypeError
                  | _ \<Rightarrow> Inl (KeyError ''Market_Value'')))
           | _ \<Rightarrow> Inl (KeyError ''Fund_Name''))
      | _ \<Rightarrow> Inr None)"

definition summarise_top_holdings ::
  "workbook \<Rightarrow> py_error + (string \<times> field_value) list list option" where
  "summarise_top_holdings wb =
     (case wb ''Holdings_Detail'' of
        None \<Rightarrow> Inr None
      | Some (Holdings holdings) \<Rightarrow>
          py_bind (nlargest 10 holdings) (\<lambda>top. Inr (Some (map holding_record top)))
      | Some _ \<Rightarrow> Inl (KeyError ''Market_Value''))"

definition summarise_sectors :: "workbook \<Rightarrow> py_error + (string \<times> real) list option" where
  "summarise_sectors wb =
     (case wb ''Holdings_Detail'' of
        None \<Rightarrow> Inr None
      | Some (Holdings holdings) \<Rightarrow>
          if \<forall>h \<in> set holdings. is_numeric (Market_Value h)
          then Inr (Some (group_sectors holdings))
          else Inl TypeError
      | Some _ \<Rightarrow> Inl (KeyError ''Sector''))"

definition performance_of_row :: "series_row \<Rightarrow> py_error + performance_summary" where
  "performance_of_row latest_perf =
     py_bind (col latest_perf ''Portfolio_Value'') (\<lambda>v1.
     py_bind (col latest_perf ''Cumulative_Return'') (\<lambda>v2.
     py_bind (col latest_perf ''Daily_Return'') (\<lambda>v3.
     py_bind (col latest_perf ''Volatility'') (\<lambda>v4.
     py_bind (col latest_perf ''Sharpe_Ratio'') (\<lambda>v5.
     py_bind (col latest_perf ''Max_Drawdown'') (\<lambda>v6.
     py_bind (col latest_perf ''Active_Return'') (\<lambda>v7.
       Inr \<lparr>current_value = v1, total_return = v2, daily_return = v3, volatility = v4,
            sharpe_ratio = v5, max_drawdown = v6, active_return = v7\<rparr>)))))))"

definition risk_of_row :: "series_row \<Rightarrow> py_error + risk_summary" where
  "risk_of_row latest_risk =
     py_bind (col latest_risk ''Portfolio_Beta'') (\<lambda>v1.
     py_bind (col latest_risk ''VaR_95'') (\<lambda>v2.
     py_bind (col latest_risk ''CVaR_95'') (\<lambda>v3.
     py_bind (col latest_risk ''Tracking_Error'') (\<lambda>v4.
     py_bind (col latest_risk ''Correlation_Benchmark'') (\<lambda>v5.
     py_bind (col latest_risk ''Concentration_Risk'') (\<lambda>v6.
     py_bind (col latest_risk ''Liquidity_Score'') (\<lambda>v7.
       Inr \<lparr>portfolio_beta = v1, var_95 = v2, cvar_95 = v3, tracking_error = v4,
            correlation_benchmark = v5, concentration_risk = v6, liquidity_score = v7\<rparr>)))))))"

definition summarise_latest ::
  "workbook \<Rightarrow> string \<Rightarrow> (series_row \<Rightarrow> py_error + 'a) \<Rightarrow> py_error + 'a option" where
  "summarise_latest wb sheet_name of_row =
     (case wb sheet_name of
        None \<Rightarrow> Inr None
      | Some (Series rows) \<Rightarrow>
          py_bind (iloc_last rows) (\<lambda>latest. py_bind (of_row latest) (\<lambda>s. Inr (Some s)))
      | Some _ \<Rightarrow> Inl (KeyError ''Date''))"

definition calculate_metrics :: "workbook \<Rightarrow> py_error + processed" where
  "calculate_metrics wb =
     py_bind (summarise_portfolio wb) (\<lambda>ps.
     py_bind (summarise_top_holdings wb) (\<lambda>top.
     py_bind (summarise_sectors wb) (\<lambda>sectors.
     py_bind (summarise_latest wb ''Historical_Performance'' performance_of_row) (\<lambda>perf.
     py_bind (summarise_latest wb ''Risk_Metrics'' risk_of_row) (\<lambda>risk.
       Inr \<lparr>p_portfolio_summary = ps, p_top_holdings = top, p_sector_allocation = sectors,
            p_performance_summary = perf, p_risk_summary = risk\<rparr>)))))"

subsection \<open>load\_excel\_file\<close>

record processor =
  data :: workbook
  processed_data :: processed

definition load_excel_file :: "workbook \<Rightarrow> py_error + processor" where
  "load_excel_file excel_data =
     py_bind (validate_sheets expected_sheets excel_data) (\<lambda>_.
     py_bind (clean_data excel_data) (\<lambda>cleaned.
     py_bind (calculate_metrics cleaned) (\<lambda>metrics.
       Inr \<lparr>data = cleaned, processed_data = metrics\<rparr>)))"

section \<open>backend/vector\_store.py\<close>

subsection \<open>Dynamic values\<close>

text \<open>
  The data dictionaries are \<open>Dict[str, Any]\<close>: a value is a number, a string, \<open>None\<close>, a
  dict (its items in insertion order) or a list. What Python's own \<open>float(str)\<close>,
  \<open>format(value, spec)\<close> and \<open>datetime.now().isoformat()\<close> return is taken from the
  environment \<open>env\<close>; the code under study does not depend on how they are computed.
\<close>

datatype pyval =
    VNum real
  | VStr string
  | VNone
  | VDict "(string \<times> pyval) list"
  | VList "pyval list"

type_synonym pydict = "(string \<times> pyval) list"

record env =
  str_to_float :: "string \<Rightarrow> real option"
  py_format :: "string \<Rightarrow> pyval \<Rightarrow> py_error + string"
  now_isoformat :: string

text \<open>\<open>key in data\<close>, \<open>obj.get(key, default)\<close>, \<open>obj.values()\<close>, \<open>float(x)\<close>, \<open>bool(x)\<close>.\<close>

definition has_key :: "pydict \<Rightarrow> string \<Rightarrow> bool" where
  "has_key dct key = (map_of dct key \<noteq> None)"

fun py_get :: "pyval \<Rightarrow> string \<Rightarrow> pyval \<Rightarrow> py_error + pyval" where
  "py_get (VDict dct) key dflt = Inr (case map_of dct key of None \<Rightarrow> dflt | Some v \<Rightarrow> v)"
| "py_get _ key dflt = Inl AttributeError"

fun py_values :: "pyval \<Rightarrow> py_error + pyval list" where
  "py_values (VDict dct) = Inr (map snd dct)"
| "py_values _ = Inl AttributeError"

fun py_float :: "env \<Rightarrow> pyval \<Rightarrow> py_error + real" where
  "py_float e (VNum r) = Inr r"
| "py_float e (VStr s) =
     (case str_to_float e s of
        None \<Rightarrow> Inl (ValueError ''could not convert string to float'')
      | Some r \<Rightarrow> Inr r)"
| "py_float e _ = Inl TypeError"

fun truthy :: "pyval \<Rightarrow> bool" where
  "truthy (VNum r) = (r \<noteq> 0)"
| "truthy (VStr s) = (s \<noteq> [])"
| "truthy VNone = False"
| "truthy (VDict dct) = (dct \<noteq> [])"
| "truthy (VList l) = (l \<noteq> [])"

text \<open>A value used as an operand of \<open>+\<close>, \<open>/\<close>, \<open><\<close> or \<open>>\<close> with a number.\<close>

fun number :: "pyval \<Rightarrow> py_error + real" where
  "number (VNum r) = Inr r"
| "number _ = Inl TypeError"

definition py_sum :: "pyval list \<Rightarrow> py_error + real" where
  "py_sum vs = py_bind (py_all (map number vs)) (\<lambda>rs. Inr (sum_list rs))"

definition py_div :: "real \<Rightarrow> real \<Rightarrow> py_error + real" where
  "py_div a b = (if b = 0 then Inl ZeroDivisionError else Inr (a / b))"

text \<open>\<open>xs[idx]\<close> on a list: a negative index counts from the end.\<close>

definition py_item :: "'a list \<Rightarrow> int \<Rightarrow> py_error + 'a" where
  "py_item xs idx =
     (let n = int (length xs); j = (if idx < 0 then n + idx else idx)
      in if 0 \<le> j \<and> j < n then Inr (xs ! nat j) else Inl IndexError)"

text \<open>\<open>obj[:n]\<close> as the list of its elements: a list or a string can be sliced.\<close>

fun py_slice :: "nat \<Rightarrow> pyval \<Rightarrow> py_error + pyval list" where
  "py_slice n (VList l) = Inr (take n l)"
| "py_slice n (VStr s) = Inr (map (\<lambda>c. VStr [c]) (take n s))"
| "py_slice n _ = Inl TypeError"

fun join :: "string \<Rightarrow> string list \<Rightarrow> string" where
  "join sep [] = []"
| "join sep [x] = x"
| "join sep (x # y # ys) = x @ sep @ join sep (y # ys)"

subsection \<open>The FAISS index\<close>

text \<open>
  \<open>faiss.IndexFlatIP(d)\<close> keeps the added vectors in order. \<open>add\<close> and \<open>search\<close> assert
  that the vector has \<open>d\<close> components, \<open>search\<close> that \<open>k > 0\<close>. \<open>search\<close> returns \<open>k\<close>
  pairs of score and position by descending inner product, padded with position \<open>-1\<close>
  and the lowest float when the index holds fewer than \<open>k\<close> vectors. Among equal
  scores the model puts the earlier vector first; nothing proved below depends on it.
\<close>

record flat_index =
  ix_d :: nat
  ix_vectors :: "real list list"

definition IndexFlatIP :: "nat \<Rightarrow> flat_index" where
  "IndexFlatIP dm = \<lparr>ix_d = dm, ix_vectors = []\<rparr>"

definition ntotal :: "flat_index \<Rightarrow> nat" where
  "ntotal ix = length (ix_vectors ix)"

definition index_add :: "flat_index \<Rightarrow> real list \<Rightarrow> py_error + flat_index" where
  "index_add ix v =
     (if length v = ix_d ix then Inr (ix\<lparr>ix_vectors := ix_vectors ix @ [v]\<rparr>)
      else Inl AssertionError)"

definition inner_product :: "real list \<Rightarrow> real list \<Rightarrow> real" where
  "inner_product x y = sum_list (map (\<lambda>(a, b). a * b) (zip x y))"

definition lowest_float :: real where
  "lowest_float = - ((2 - 1 / 2 ^ 23) * 2 ^ 127)"

definition scored :: "real list \<Rightarrow> real list list \<Rightarrow> (real \<times> nat) list" where
  "scored q vs = map (\<lambda>i. (inner_product q (vs ! i), i)) [0..<length vs]"

definition ranked :: "real list \<Rightarrow> real list list \<Rightarrow> (real \<times> nat) list" where
  "ranked q vs = sort_key (\<lambda>(score, i). - score) (scored q vs)"

definition index_search :: "flat_index \<Rightarrow> real list \<Rightarrow> int \<Rightarrow> py_error + (real \<times> int) list" where
  "index_search ix q k =
     (if length q \<noteq> ix_d ix \<or> k \<le> 0 then Inl AssertionError
      else
        let hits = take (nat k) (ranked q (ix_vectors ix))
        in Inr (map (\<lambda>(score, i). (score, int i)) hits @
                replicate (nat k - length hits) (lowest_float, - 1)))"

subsection \<open>PortfolioVectorStore\<close>

record snapshot_metadata =
  timestamp :: string
  data_summary :: string
  portfolio_name :: pyval
  md_total_return :: pyval
  md_volatility :: pyval
  md_risk_level :: pyval

record store =
  dimension :: nat
  index :: flat_index
  embeddings :: "real list list"
  metadata :: "snapshot_metadata list"
  is_trained :: bool

definition init_store :: "nat \<Rightarrow> store" where
  "init_store dm =
     \<lparr>dimension = dm, index = IndexFlatIP dm, embeddings = [], metadata = [],
      is_trained = False\<rparr>"

subsection \<open>\_create\_embeddings\<close>

definition get_float :: "env \<Rightarrow> pyval \<Rightarrow> string \<Rightarrow> py_error + real" where
  "get_float e obj key = py_bind (py_get obj key (VNum 0)) (py_float e)"

definition portfolio_features :: "env \<Rightarrow> pyval \<Rightarrow> py_error + real list" where
  "portfolio_features e portfolio =
     py_bind (get_float e portfolio ''total_aum'') (\<lambda>aum.
     py_bind (get_float e portfolio ''target_return'') (\<lambda>target.
     py_bind (get_float e portfolio ''total_holdings'') (\<lambda>holdings.
       Inr [aum / 10 ^ 9, target, holdings / 100])))"

definition performance_features :: "env \<Rightarrow> pyval \<Rightarrow> py_error + real list" where
  "performance_features e perf =
     py_all (map (get_float e perf)
       [''total_return'', ''daily_return'', ''volatility'', ''sharpe_ratio'',
        ''max_drawdown'', ''active_return''])"

definition risk_features :: "env \<Rightarrow> pyval \<Rightarrow> py_error + real list" where
  "risk_features e risk =
     py_bind (get_float e risk ''portfolio_beta'') (\<lambda>beta.
     py_bind (get_float e risk ''var_95'') (\<lambda>var.
     py_bind (get_float e risk ''tracking_error'') (\<lambda>te.
     py_bind (get_float e risk ''correlation_benchmark'') (\<lambda>corr.
     py_bind (get_float e risk ''concentration_risk'') (\<lambda>conc.
     py_bind (get_float e risk ''liquidity_score'') (\<lambda>liq.
       Inr [beta, var / 10 ^ 6, te, corr, conc, liq / 10]))))))"

text \<open>
  The sector block: \<open>total_value\<close>, the five largest weights over it, and the Herfindahl
  index. An empty or otherwise false \<open>sectors\<close> gives five zeros over 1 and index 0.
\<close>

definition sector_features :: "pyval \<Rightarrow> py_error + real list" where
  "sector_features sectors =
     (if truthy sectors then
        py_bind (py_values sectors) (\<lambda>vs.
        py_bind (py_sum vs) (\<lambda>total_value.
        py_bind (py_all (map number vs)) (\<lambda>ws.
        py_bind (py_all (map (\<lambda>w. py_div w total_value) (take 5 (rev (sort ws))))) (\<lambda>normalized_weights.
        py_bind (py_all (map (\<lambda>w. py_div w total_value) ws)) (\<lambda>shares.
          Inr (normalized_weights @ [sum_list (map (\<lambda>x. x ^ 2) shares)]))))))
      else Inr (replicate 5 0 @ [0]))"

text \<open>\<open>if key in data: ... data[key] ...\<close>: a block that runs only when the key is present.\<close>

definition block_of ::
  "pydict \<Rightarrow> string \<Rightarrow> (pyval \<Rightarrow> py_error + 'a list) \<Rightarrow> py_error + 'a list" where
  "block_of dct key f = (case map_of dct key of None \<Rightarrow> Inr [] | Some v \<Rightarrow> f v)"

definition extract_features :: "env \<Rightarrow> pydict \<Rightarrow> py_error + real list" where
  "extract_features e dct =
     py_bind (block_of dct ''portfolio_summary'' (portfolio_features e)) (\<lambda>f1.
     py_bind (block_of dct ''performance_summary'' (performance_features e)) (\<lambda>f2.
     py_bind (block_of dct ''risk_summary'' (risk_features e)) (\<lambda>f3.
     py_bind (block_of dct ''sector_allocation'' sector_features) (\<lambda>f4.
       Inr (f1 @ f2 @ f3 @ f4)))))"

text \<open>\<open>while len(features) < self.dimension: features.append(0.0)\<close>\<close>

function pad :: "nat \<Rightarrow> real list \<Rightarrow> real list" where
  "pad dm features = (if length features < dm then pad dm (features @ [0]) else features)"
  by pat_completeness auto
termination
  by (relation "measure (\<lambda>(dm, features). dm - length features)") auto

declare pad.simps [simp del]

definition create_embeddings :: "env \<Rightarrow> nat \<Rightarrow> pydict \<Rightarrow> real list" where
  "create_embeddings e dm dct =
     (case extract_features e dct of
        Inr features \<Rightarrow> take dm (pad dm features)
      | Inl err \<Rightarrow> replicate dm 0)"


subsection \<open>\_create\_data\_summary\<close>

text \<open>One f-string part: a label, then \<open>obj.get(key, default)\<close> formatted with \<open>spec\<close>.\<close>

definition fmt_get ::
  "env \<Rightarrow> string \<Rightarrow> pyval \<Rightarrow> string \<Rightarrow> pyval \<Rightarrow> string \<Rightarrow> py_error + string" where
  "fmt_get e label obj key dflt spec =
     py_bind (py_get obj key dflt) (\<lambda>v.
     py_bind (py_format e spec v) (\<lambda>txt. Inr (label @ txt)))"

definition create_data_summary :: "env \<Rightarrow> pydict \<Rightarrow> py_error + string" where
  "create_data_summary e dct =
     py_bind (block_of dct ''portfolio_summary'' (\<lambda>portfolio. py_all
        [fmt_get e ''Portfolio: '' portfolio ''fund_name'' (VStr ''Unknown'') [],
         fmt_get e ''AUM: '' portfolio ''total_aum'' (VNum 0) '',.0f'',
         fmt_get e ''Risk Level: '' portfolio ''risk_level'' (VStr ''Unknown'') []])) (\<lambda>p1.
     py_bind (block_of dct ''performance_summary'' (\<lambda>perf. py_all
        [fmt_get e ''Return: '' perf ''total_return'' (VNum 0) ''.2%'',
         fmt_get e ''Volatility: '' perf ''volatility'' (VNum 0) ''.2%'',
         fmt_get e ''Sharpe: '' perf ''sharpe_ratio'' (VNum 0) ''.2f''])) (\<lambda>p2.
     py_bind (block_of dct ''risk_summary'' (\<lambda>risk. py_all
        [fmt_get e ''Beta: '' risk ''portfolio_beta'' (VNum 0) ''.2f'',
         fmt_get e ''VaR: '' risk ''var_95'' (VNum 0) '',.0f''])) (\<lambda>p3.
       Inr (join '' | '' (p1 @ p2 @ p3)))))"

subsection \<open>add\_portfolio\_data\<close>

definition dict_get :: "pydict \<Rightarrow> string \<Rightarrow> pyval \<Rightarrow> pyval" where
  "dict_get dct key dflt = (case map_of dct key of None \<Rightarrow> dflt | Some v \<Rightarrow> v)"

text \<open>
  The metadata is built before anything is stored, and the index is extended before the
  two lists: an exception (re-raised by the handler) leaves the store as it was.
\<close>

definition add_portfolio_data ::
  "env \<Rightarrow> store \<Rightarrow> pydict \<Rightarrow> string option \<Rightarrow> py_error + store \<times> nat" where
  "add_portfolio_data e s snapshot ts =
     (let embedding = create_embeddings e (dimension s) snapshot;
          stamp = (case ts of None \<Rightarrow> now_isoformat e
                   | Some t \<Rightarrow> if t = [] then now_isoformat e else t)
      in
        py_bind (create_data_summary e snapshot) (\<lambda>summary.
        py_bind (py_get (dict_get snapshot ''portfolio_summary'' (VDict [])) ''fund_name''
                   (VStr ''Unknown'')) (\<lambda>name.
        py_bind (py_get (dict_get snapshot ''performance_summary'' (VDict [])) ''total_return''
                   (VNum 0)) (\<lambda>ret.
        py_bind (py_get (dict_get snapshot ''performance_summary'' (VDict [])) ''volatility''
                   (VNum 0)) (\<lambda>vol.
        py_bind (py_get (dict_get snapshot ''portfolio_summary'' (VDict [])) ''risk_level''
                   (VStr ''Unknown'')) (\<lambda>level.
        py_bind (index_add (index s) embedding) (\<lambda>index'.
          let md = \<lparr>timestamp = stamp, data_summary = summary, portfolio_name = name,
                     md_total_return = ret, md_volatility = vol, md_risk_level = level\<rparr>;
              vector_id = length (embeddings s)
          in Inr (s\<lparr>index := index',
                     embeddings := embeddings s @ [embedding],
                     metadata := metadata s @ [md],
                     is_trained := True\<rparr>, vector_id))))))))"

subsection \<open>search\_similar\_portfolios\<close>

record search_result =
  similarity_score :: real
  result_metadata :: snapshot_metadata
  rank :: nat

text \<open>
  \<open>for i, (score, idx) in enumerate(zip(scores[0], indices[0])): if idx < len(self.metadata): ...\<close>
\<close>

fun collect_results ::
  "snapshot_metadata list \<Rightarrow> nat \<Rightarrow> (real \<times> int) list \<Rightarrow> py_error + search_result list" where
  "collect_results mds i [] = Inr []"
| "collect_results mds i ((score, idx) # rest) =
     (if idx < int (length mds)
      then py_bind (py_item mds idx) (\<lambda>md.
           py_bind (collect_results mds (i + 1) rest) (\<lambda>results.
             Inr (\<lparr>similarity_score = score, result_metadata = md, rank = i + 1\<rparr> # results)))
      else collect_results mds (i + 1) rest)"

definition search_try :: "env \<Rightarrow> store \<Rightarrow> pydict \<Rightarrow> int \<Rightarrow> py_error + search_result list" where
  "search_try e s query_data k =
     (if \<not> is_trained s \<or> length (embeddings s) = 0 then Inr []
      else
        let query_embedding = create_embeddings e (dimension s) query_data
        in py_bind (index_search (index s) query_embedding (min k (int (length (embeddings s)))))
             (collect_results (metadata s) 0))"

definition search_similar_portfolios :: "env \<Rightarrow> store \<Rightarrow> pydict \<Rightarrow> int \<Rightarrow> search_result list" where
  "search_similar_portfolios e s query_data k =
     (case search_try e s query_data k of Inl err \<Rightarrow> [] | Inr results \<Rightarrow> results)"

subsection \<open>get\_context\_for\_query\<close>

definition newline :: string where
  "newline = [CHR 0x0A]"

definition lower_char :: "char \<Rightarrow> char" where
  "lower_char c =
     (let n = (of_char c :: nat) in if 65 \<le> n \<and> n \<le> 90 then char_of (n + 32) else c)"

definition lower :: "string \<Rightarrow> string" where
  "lower s = map lower_char s"

fun starts_with :: "string \<Rightarrow> string \<Rightarrow> bool" where
  "starts_with s [] = True"
| "starts_with [] (p # ps) = False"
| "starts_with (c # cs) (p # ps) = (c = p \<and> starts_with cs ps)"

text \<open>\<open>sub in s\<close> on strings.\<close>

fun contains :: "string \<Rightarrow> string \<Rightarrow> bool" where
  "contains [] sub = (sub = [])"
| "contains (c # cs) sub = (starts_with (c # cs) sub \<or> contains cs sub)"

fun py_subscript :: "pyval \<Rightarrow> string \<Rightarrow> py_error + pyval" where
  "py_subscript (VDict dct) key =
     (case map_of dct key of None \<Rightarrow> Inl (KeyError key) | Some v \<Rightarrow> Inr v)"
| "py_subscript _ key = Inl TypeError"

definition similar_lines :: "env \<Rightarrow> search_result list \<Rightarrow> py_error + string list" where
  "similar_lines e similar =
     (if similar = [] then Inr []
      else py_bind
        (py_all (map (\<lambda>r. py_bind (py_format e ''.3f'' (VNum (similarity_score r))) (\<lambda>txt.
           Inr (''- '' @ data_summary (result_metadata r) @ '' (Similarity: '' @ txt @ '')'')))
           similar))
        (\<lambda>ls. Inr ((newline @ ''SIMILAR HISTORICAL PERIODS:'') # ls)))"

definition holding_line :: "env \<Rightarrow> pyval \<Rightarrow> py_error + string" where
  "holding_line e holding =
     py_bind (py_subscript holding ''Asset_Name'') (\<lambda>name.
     py_bind (py_format e [] name) (\<lambda>txt1.
     py_bind (py_subscript holding ''Weight_Percent'') (\<lambda>w.
     py_bind (py_format e ''.1%'' w) (\<lambda>txt2.
       Inr (''- '' @ txt1 @ '': '' @ txt2)))))"

definition query_lines :: "env \<Rightarrow> string \<Rightarrow> pydict \<Rightarrow> py_error + string list" where
  "query_lines e query_lower current_data =
     (if contains query_lower ''risk'' then
        block_of current_data ''risk_summary'' (\<lambda>risk.
          py_bind (fmt_get e ''Beta: '' risk ''portfolio_beta'' (VNum 0) ''.2f'') (\<lambda>l1.
          py_bind (fmt_get e '', VaR: '' risk ''var_95'' (VNum 0) '',.0f'') (\<lambda>l2.
          py_bind (fmt_get e ''Tracking Error: '' risk ''tracking_error'' (VNum 0) ''.3f'') (\<lambda>l3.
            Inr [newline @ ''RISK CONTEXT:'', l1 @ l2, l3]))))
      else if contains query_lower ''performance'' \<or> contains query_lower ''return'' then
        block_of current_data ''performance_summary'' (\<lambda>perf.
          py_bind (py_all
            [fmt_get e ''Total Return: '' perf ''total_return'' (VNum 0) ''.2%'',
             fmt_get e ''Volatility: '' perf ''volatility'' (VNum 0) ''.2%'',
             fmt_get e ''Sharpe Ratio: '' perf ''sharpe_ratio'' (VNum 0) ''.2f'']) (\<lambda>ls.
            Inr ((newline @ ''PERFORMANCE CONTEXT:'') # ls)))
      else if contains query_lower ''holding'' \<or> contains query_lower ''sector'' then
        block_of current_data ''top_holdings'' (\<lambda>tops.
          py_bind (py_slice 3 tops) (\<lambda>first3.
          py_bind (py_all (map (holding_line e) first3)) (\<lambda>ls.
            Inr ((newline @ ''HOLDINGS CONTEXT:'') # ls))))
      else Inr [])"

definition get_context_for_query :: "env \<Rightarrow> store \<Rightarrow> string \<Rightarrow> pydict \<Rightarrow> string" where
  "get_context_for_query e s query current_data =
     (let similar_portfolios = search_similar_portfolios e s current_data 2;
          body =
            py_bind (if has_key current_data ''portfolio_summary''
                     then py_bind (create_data_summary e current_data) (\<lambda>summary.
                            Inr [''CURRENT PORTFOLIO:'', summary])
                     else Inr []) (\<lambda>c1.
            py_bind (similar_lines e similar_portfolios) (\<lambda>c2.
            py_bind (query_lines e (lower query) current_data) (\<lambda>c3.
              Inr (join newline (c1 @ c2 @ c3)))))
      in case body of
           Inl err \<Rightarrow> ''Current portfolio data available for analysis.''
         | Inr context \<Rightarrow> context)"

subsection \<open>save\_index, load\_index, get\_stats\<close>

text \<open>
  The file system maps a path to what is stored there: an index written by
  \<open>faiss.write_index\<close>, the pickled dict of \<open>save_index\<close>, or anything else.
\<close>

record pickled =
  pk_embeddings :: "real list list"
  pk_metadata :: "snapshot_metadata list"
  pk_dimension :: nat
  pk_is_trained :: bool

datatype stored_file = IndexFile flat_index | PickleFile pickled | OtherFile string

type_synonym filesystem = "string \<rightharpoonup> stored_file"

definition save_index :: "store \<Rightarrow> string \<Rightarrow> filesystem \<Rightarrow> filesystem" where
  "save_index s filepath fs =
     (fs(filepath @ ''.index'' \<mapsto> IndexFile (index s)))
       (filepath @ ''.metadata'' \<mapsto>
          PickleFile \<lparr>pk_embeddings = embeddings s, pk_metadata = metadata s,
                      pk_dimension = dimension s, pk_is_trained = is_trained s\<rparr>)"

text \<open>
  \<open>load_index\<close> assigns \<open>self.index\<close> as soon as the index file is read; the four other
  attributes follow once the metadata file is unpickled. Any exception is caught and
  the result is \<open>False\<close>.
\<close>

definition load_index :: "store \<Rightarrow> string \<Rightarrow> filesystem \<Rightarrow> store \<times> bool" where
  "load_index s filepath fs =
     (case fs (filepath @ ''.index'') of
        None \<Rightarrow> (s, False)
      | Some (IndexFile ix) \<Rightarrow>
          (let s1 = s\<lparr>index := ix\<rparr>
           in case fs (filepath @ ''.metadata'') of
                Some (PickleFile pk) \<Rightarrow>
                  (s1\<lparr>embeddings := pk_embeddings pk, metadata := pk_metadata pk,
                      dimension := pk_dimension pk, is_trained := pk_is_trained pk\<rparr>, True)
              | _ \<Rightarrow> (s1, False))
      | Some _ \<Rightarrow> (s, False))"

record stats =
  total_vectors :: nat
  stats_dimension :: nat
  stats_is_trained :: bool
  index_size :: nat

definition get_stats :: "store \<Rightarrow> stats" where
  "get_stats s =
     \<lparr>total_vectors = length (embeddings s), stats_dimension = dimension s,
      stats_is_trained = is_trained s, index_size = ntotal (index s)\<rparr>"


subsection \<open>The operations of the store\<close>

text \<open>
  One call on the store, with the file system it may read or write. Only
  \<open>add_portfolio_data\<close> and \<open>load_index\<close> assign attributes of the store, and only
  \<open>save_index\<close> writes files; a call that raises leaves both as they were.
\<close>

datatype operation =
    Add pydict "string option"
  | Search pydict int
  | GetContext string pydict
  | GetStats
  | Save string
  | Load string

fun exec :: "env \<Rightarrow> store \<times> filesystem \<Rightarrow> operation \<Rightarrow> store \<times> filesystem" where
  "exec e (s, fs) (Add snapshot ts) =
     (case add_portfolio_data e s snapshot ts of
        Inl err \<Rightarrow> (s, fs)
      | Inr (s', vector_id) \<Rightarrow> (s', fs))"
| "exec e (s, fs) (Search query_data k) = (s, fs)"
| "exec e (s, fs) (GetContext query current_data) = (s, fs)"
| "exec e (s, fs) GetStats = (s, fs)"
| "exec e (s, fs) (Save filepath) = (s, save_index s filepath fs)"
| "exec e (s, fs) (Load filepath) = (fst (load_index s filepath fs), fs)"

fun is_load :: "operation \<Rightarrow> bool" where
  "is_load (Load filepath) = True"
| "is_load _ = False"

text \<open>A run of successful \<open>add_portfolio_data\<close> calls, with the ids they return.\<close>

fun add_all :: "env \<Rightarrow> store \<Rightarrow> (pydict \<times> string option) list \<Rightarrow> py_error + store \<times> nat list" where
  "add_all e s [] = Inr (s, [])"
| "add_all e s ((snapshot, ts) # rest) =
     py_bind (add_portfolio_data e s snapshot ts) (\<lambda>(s1, vector_id).
     py_bind (add_all e s1 rest) (\<lambda>(s2, ids). Inr (s2, vector_id # ids)))"

definition run :: "env \<Rightarrow> store \<times> filesystem \<Rightarrow> operation list \<Rightarrow> store \<times> filesystem" where
  "run e w ops = foldl (exec e) w ops"


text \<open>
  What \<open>__init__\<close> establishes and \<open>add_portfolio_data\<close> keeps: the index holds the
  stored embeddings under the store's dimension, with one metadata record each, and a
  store that holds a vector is trained.
\<close>

definition store_ok :: "store \<Rightarrow> bool" where
  "store_ok s \<longleftrightarrow>
     ix_vectors (index s) = embeddings s \<and> length (metadata s) = length (embeddings s) \<and>
     ix_d (index s) = dimension s \<and> (embeddings s \<noteq> [] \<longrightarrow> is_trained s)"

section \<open>backend/ai\_engine.py: \_parse\_recommendations\<close>

text \<open>
  Strings are lists of 8-bit characters: \<open>isdigit\<close>, \<open>strip\<close> and \<open>lower\<close> are the ASCII
  ones.
\<close>

record recommendation =
  title :: string
  description :: string
  priority :: string
  rationale :: string
  impact :: string

definition is_space :: "char \<Rightarrow> bool" where
  "is_space c =
     (let n = (of_char c :: nat) in (9 \<le> n \<and> n \<le> 13) \<or> (28 \<le> n \<and> n \<le> 32))"

definition isdigit :: "char \<Rightarrow> bool" where
  "isdigit c = (let n = (of_char c :: nat) in 48 \<le> n \<and> n \<le> 57)"

definition strip :: "string \<Rightarrow> string" where
  "strip s = rev (dropWhile is_space (rev (dropWhile is_space s)))"

text \<open>\<open>s.split(sep)\<close> for a one-character separator, and \<open>s.split(sep, 1)\<close>.\<close>

fun split :: "char \<Rightarrow> string \<Rightarrow> string list" where
  "split sep [] = [[]]"
| "split sep (c # cs) =
     (if c = sep then [] # split sep cs
      else (case split sep cs of [] \<Rightarrow> [[c]] | x # xs \<Rightarrow> (c # x) # xs))"

definition split_once :: "char \<Rightarrow> string \<Rightarrow> string list" where
  "split_once sep s =
     (if sep \<in> set s
      then [takeWhile (\<lambda>c. c \<noteq> sep) s, tl (dropWhile (\<lambda>c. c \<noteq> sep) s)]
      else [s])"

text \<open>
  The loop body. \<open>current_rec\<close> is \<open>{}\<close> (here \<open>None\<close>) until the first numbered line; the
  list holds the recommendations that are complete.
\<close>

definition parse_line ::
  "recommendation list \<times> recommendation option \<Rightarrow> string \<Rightarrow>
   py_error + recommendation list \<times> recommendation option" where
  "parse_line st raw =
     (let recommendations = fst st; current_rec = snd st; line = strip raw in
      if line = [] then Inr st
      else
        py_bind (py_item line 0) (\<lambda>first.
          if isdigit first \<and> CHR ''.'' \<in> set (take 3 line) then
            py_bind (py_item (split_once CHR ''.'' line) 1) (\<lambda>rest.
              Inr ((case current_rec of None \<Rightarrow> recommendations
                    | Some r \<Rightarrow> recommendations @ [r]),
                   Some \<lparr>title = strip rest, description = [], priority = ''Medium'',
                         rationale = [], impact = []\<rparr>))
          else
            (case current_rec of
               None \<Rightarrow> Inr st
             | Some r \<Rightarrow>
                 if contains (lower line) ''priority'' then
                   (if contains (lower line) ''high'' then
                      Inr (recommendations, Some (r\<lparr>priority := ''High''\<rparr>))
                    else if contains (lower line) ''low'' then
                      Inr (recommendations, Some (r\<lparr>priority := ''Low''\<rparr>))
                    else Inr st)
                 else
                   Inr (recommendations,
                        Some (r\<lparr>description := description r @ '' '' @ line,
                                 rationale := rationale r @ '' '' @ line\<rparr>)))))"

text \<open>
  The \<open>for\<close> loop; an exception leaves the loop with the list as it stands.
\<close>

fun parse_lines ::
  "recommendation list \<times> recommendation option \<Rightarrow> string list \<Rightarrow>
   py_error \<times> recommendation list + recommendation list \<times> recommendation option" where
  "parse_lines st [] = Inr st"
| "parse_lines st (raw # rest) =
     (case parse_line st raw of
        Inl err \<Rightarrow> Inl (err, fst st)
      | Inr st' \<Rightarrow> parse_lines st' rest)"

definition clean_up :: "recommendation \<Rightarrow> recommendation" where
  "clean_up r =
     (let r1 = r\<lparr>description := strip (description r)\<rparr>;
          r2 = r1\<lparr>rationale := strip (rationale r1)\<rparr>;
          r3 = (if description r2 = [] then r2\<lparr>description := title r2\<rparr> else r2)
      in if rationale r3 = [] then r3\<lparr>rationale := description r3\<rparr> else r3)"

definition parse_try :: "string \<Rightarrow> py_error \<times> recommendation list + recommendation list" where
  "parse_try recommendations_text =
     (case parse_lines ([], None) (split CHR 0x0A recommendations_text) of
        Inl failed \<Rightarrow> Inl failed
      | Inr (recommendations, current_rec) \<Rightarrow>
          Inr (map clean_up
                (case current_rec of None \<Rightarrow> recommendations
                 | Some r \<Rightarrow> recommendations @ [r])))"

text \<open>The \<open>except\<close> branch: one record per non-blank line, for the first seven.\<close>

fun digits :: "nat \<Rightarrow> string" where
  "digits n =
     (if n < 10 then [char_of (48 + n)] else digits (n div 10) @ [char_of (48 + n mod 10)])"

declare digits.simps [simp del]

definition basic_parse :: "string \<Rightarrow> recommendation list" where
  "basic_parse recommendations_text =
     map (\<lambda>(i, line).
            \<lparr>title = ''Recommendation '' @ digits (i + 1), description = line,
             priority = ''Medium'', rationale = line, impact = ''Portfolio optimization''\<rparr>)
       (enumerate 0
          (take 7 (filter (\<lambda>l. l \<noteq> []) (map strip (split CHR 0x0A recommendations_text)))))"

definition parse_recommendations :: "string \<Rightarrow> recommendation list" where
  "parse_recommendations recommendations_text =
     take 7
       (case parse_try recommendations_text of
          Inr recommendations \<Rightarrow> recommendations
        | Inl (err, recommendations) \<Rightarrow> recommendations @ basic_parse recommendations_text)"

section \<open>frontend/utils.py: calculate\_portfolio\_metrics\<close>

text \<open>A metric is a number or \<open>float('inf')\<close>.\<close>

datatype metric = Finite real | Infinity

definition performance_metrics :: "pyval \<Rightarrow> py_error + (string \<times> metric) list" where
  "performance_metrics perf =
     py_bind (py_get perf ''total_return'' (VNum 0)) (\<lambda>total_return.
     py_bind (py_get perf ''volatility'' (VNum 0)) (\<lambda>volatility.
     py_bind (number volatility) (\<lambda>vol.
     py_bind (if vol > 0
              then py_bind (number total_return) (\<lambda>ret. py_div ret vol)
              else Inr 0) (\<lambda>ratio.
     py_bind (py_get perf ''max_drawdown'' (VNum 0)) (\<lambda>max_drawdown.
     py_bind (number max_drawdown) (\<lambda>mdd.
     py_bind (if mdd < 0
              then py_bind (number total_return) (\<lambda>ret.
                   py_bind (py_div ret \<bar>mdd\<bar>) (\<lambda>x. Inr (Finite x)))
              else Inr Infinity) (\<lambda>recovery.
       Inr [(''return_volatility_ratio'', Finite ratio), (''recovery_factor'', recovery)])))))))"

definition weight_sum :: "nat \<Rightarrow> pyval \<Rightarrow> py_error + real" where
  "weight_sum n top_holdings =
     py_bind (py_slice n top_holdings) (\<lambda>hs.
     py_bind (py_all (map (\<lambda>h. py_get h ''Weight_Percent'' (VNum 0)) hs)) py_sum)"

definition herfindahl_metric :: "pyval \<Rightarrow> py_error + (string \<times> metric) list" where
  "herfindahl_metric sector_allocation =
     (if truthy sector_allocation then
        py_bind (py_values sector_allocation) (\<lambda>vs.
        py_bind (py_sum vs) (\<lambda>total_value.
          if total_value > 0 then
            py_bind (py_all (map number vs)) (\<lambda>ws.
            py_bind (py_all (map (\<lambda>w. py_div w total_value) ws)) (\<lambda>shares.
              Inr [(''sector_herfindahl'', Finite (sum_list (map (\<lambda>x. x ^ 2) shares)))]))
          else Inr []))
      else Inr [])"

definition holdings_metrics :: "pyval \<Rightarrow> py_error + (string \<times> metric) list" where
  "holdings_metrics holdings =
     py_bind (py_get holdings ''top_holdings'' (VList [])) (\<lambda>top_holdings.
       if truthy top_holdings then
         py_bind (weight_sum 5 top_holdings) (\<lambda>top_5_weights.
         py_bind (weight_sum 10 top_holdings) (\<lambda>top_10_weights.
         py_bind (py_get holdings ''sector_allocation'' (VDict [])) (\<lambda>sector_allocation.
         py_bind (herfindahl_metric sector_allocation) (\<lambda>h.
           Inr ([(''top_5_concentration'', Finite top_5_weights),
                 (''top_10_concentration'', Finite top_10_weights)] @ h)))))
       else Inr [])"

definition calculate_portfolio_metrics :: "pydict \<Rightarrow> py_error + (string \<times> metric) list" where
  "calculate_portfolio_metrics dct =
     py_bind (block_of dct ''performance_summary'' performance_metrics) (\<lambda>m1.
     py_bind (block_of dct ''holdings_data'' holdings_metrics) (\<lambda>m2.
       Inr (m1 @ m2)))"


section \<open>Predicates used in the statements\<close>

text \<open>
  Comparing two cells of a numeric column by value, a missing value counting as lower
  than every number; comparing two cells of a date column, a missing date counting as
  later than every date (the place \<open>sort_values\<close> gives it).
\<close>

fun value_le :: "cell \<Rightarrow> cell \<Rightarrow> bool" where
  "value_le (Num x) (Num y) = (x \<le> y)"
| "value_le (Num x) _ = False"
| "value_le _ _ = True"

fun date_le :: "date_cell \<Rightarrow> date_cell \<Rightarrow> bool" where
  "date_le (DateAt x) (DateAt y) = (x \<le> y)"
| "date_le _ (DateAt y) = False"
| "date_le _ _ = True"

text \<open>What every recommendation under construction satisfies.\<close>

definition tidy :: "recommendation \<Rightarrow> bool" where
  "tidy r \<longleftrightarrow> priority r \<in> {''High'', ''Medium'', ''Low''} \<and> rationale r = description r"

definition tidy_state :: "recommendation list \<times> recommendation option \<Rightarrow> bool" where
  "tidy_state st \<longleftrightarrow> (\<forall>r \<in> set (fst st). tidy r) \<and> (\<forall>r. snd st = Some r \<longrightarrow> tidy r)"

section \<open>Example inputs\<close>

definition example_overview :: overview_row where
  "example_overview =
     \<lparr>Fund_Name = ''Alpha Growth'', Total_AUM = NumText 5000, Base_Currency = ''INR'',
      Target_Return = Num (1 / 10), Risk_Level = ''Moderate'', Benchmark = ''NIFTY 50'',
      Inception_Date = DateAt 100, Last_Updated = DateAt 900\<rparr>"

definition stock :: "string \<Rightarrow> string \<Rightarrow> cell \<Rightarrow> holding" where
  "stock name sector mv =
     \<lparr>Asset_Name = name, Ticker_Symbol = name, Sector = sector, Purchase_Date = DateAt 7,
      Market_Value = mv, Units_Held = Num 1, Average_Cost = Num 1, Current_Price = Num 1,
      Weight_Percent = Num (1 / 4), Dividend_Yield = NaN\<rparr>"

definition example_holdings :: "holding list" where
  "example_holdings =
     [stock ''A'' ''Tech'' (Num 50), stock ''B'' ''Bank'' (Num 70),
      stock ''C'' ''Tech'' (Text ''n/a''), stock ''D'' ''Tech'' (NumText 20),
      stock ''E'' ''Bank'' (Num 90), stock ''F'' ''Auto'' (Num 10),
      stock ''G'' ''Auto'' (Num 60), stock ''H'' ''Tech'' (Num 80),
      stock ''I'' ''Bank'' (Num 30), stock ''J'' ''Tech'' (Num 40),
      stock ''K'' ''Auto'' (Num 5), stock ''L'' ''Bank'' (Num 15)]"

definition perf_row :: "int \<Rightarrow> real \<Rightarrow> series_row" where
  "perf_row day v =
     \<lparr>Date = DateAt day,
      nums = [''Portfolio_Value'' \<mapsto> v, ''Cumulative_Return'' \<mapsto> v / 100,
              ''Daily_Return'' \<mapsto> 0, ''Volatility'' \<mapsto> 1 / 5, ''Sharpe_Ratio'' \<mapsto> 1,
              ''Max_Drawdown'' \<mapsto> - (1 / 10), ''Active_Return'' \<mapsto> 0]\<rparr>"

definition risk_row :: "int \<Rightarrow> real \<Rightarrow> series_row" where
  "risk_row day v =
     \<lparr>Date = DateAt day,
      nums = [''Portfolio_Beta'' \<mapsto> v, ''VaR_95'' \<mapsto> 1000, ''CVaR_95'' \<mapsto> 1500,
              ''Tracking_Error'' \<mapsto> 0, ''Correlation_Benchmark'' \<mapsto> 1,
              ''Concentration_Risk'' \<mapsto> 0, ''Liquidity_Score'' \<mapsto> 8]\<rparr>"

definition example_workbook :: workbook where
  "example_workbook =
     [''Portfolio_Overview'' \<mapsto> Overview [example_overview],
      ''Holdings_Detail'' \<mapsto> Holdings example_holdings,
      ''Historical_Performance'' \<mapsto> Series [perf_row 3 30, perf_row 1 10, perf_row 2 20],
      ''Benchmarks'' \<mapsto> Series [],
      ''Risk_Metrics'' \<mapsto> Series [risk_row 2 1, risk_row 5 2, risk_row 4 3],
      ''Cash_Flows'' \<mapsto> Series [],
      ''Market_Data'' \<mapsto> Series []]"

definition example_env :: env where
  "example_env =
     \<lparr>str_to_float = (\<lambda>s. if s = ''1.5'' then Some (3 / 2) else None),
      py_format = (\<lambda>spec v. case v of
          VNum r \<Rightarrow> Inr (''<'' @ spec @ ''>'')
        | VStr s \<Rightarrow> if spec = [] then Inr s else Inl (ValueError ''Unknown format code'')
        | _ \<Rightarrow> if spec = [] then Inr ''?'' else Inl TypeError),
      now_isoformat = ''2024-01-01T00:00:00''\<rparr>"

definition example_snapshot :: pydict where
  "example_snapshot =
     [(''portfolio_summary'', VDict
         [(''fund_name'', VStr ''Alpha Growth''), (''total_aum'', VNum 2000000000),
          (''target_return'', VStr ''1.5''), (''total_holdings'', VNum 50),
          (''risk_level'', VStr ''Moderate'')]),
      (''performance_summary'', VDict
         [(''total_return'', VNum (1 / 5)), (''volatility'', VNum (1 / 10)),
          (''max_drawdown'', VNum (- (1 / 20)))]),
      (''sector_allocation'', VDict [(''Bank'', VNum 1), (''Tech'', VNum 3)])]"

definition broken_snapshot :: pydict where
  "broken_snapshot =
     [(''portfolio_summary'', VDict [(''fund_name'', VStr ''Beta''), (''total_aum'', VStr ''n/a'')])]"

definition example_metrics_input :: pydict where
  "example_metrics_input =
     [(''performance_summary'', VDict
         [(''total_return'', VNum (1 / 5)), (''volatility'', VNum (1 / 10)),
          (''max_drawdown'', VNum (- (1 / 20)))]),
      (''holdings_data'', VDict
         [(''top_holdings'', VList
             [VDict [(''Asset_Name'', VStr ''A''), (''Weight_Percent'', VNum (1 / 2))],
              VDict [(''Asset_Name'', VStr ''B''), (''Weight_Percent'', VNum (1 / 4))]]),
          (''sector_allocation'', VDict [(''Bank'', VNum 1), (''Tech'', VNum 3)])])]"

definition flat_metrics_input :: pydict where
  "flat_metrics_input =
     [(''performance_summary'', VDict
         [(''total_return'', VStr ''n/a''), (''volatility'', VNum 0), (''max_drawdown'', VNum 0)]),
      (''holdings_data'', VDict
         [(''top_holdings'', VList [VDict [(''Weight_Percent'', VNum 1)]]),
          (''sector_allocation'', VDict [(''Bank'', VNum 0)])])]"

definition example_response :: string where
  "example_response =
     ''Here are my suggestions:'' @ newline @
     ''1. Trim tech'' @ newline @
     ''  Priority: HIGH'' @ newline @
     ''Reduce exposure'' @ newline @ newline @
     ''2. Add bonds''"

definition example_metadata :: snapshot_metadata where
  "example_metadata =
     \<lparr>timestamp = ''2023-12-31'',
      data_summary =
        ''Portfolio: Alpha Growth | AUM: <,.0f> | Risk Level: Moderate | '' @
        ''Return: <.2%> | Volatility: <.2%> | Sharpe: <.2f>'',
      portfolio_name = VStr ''Alpha Growth'', md_total_return = VNum (1 / 5),
      md_volatility = VNum (1 / 10), md_risk_level = VStr ''Moderate''\<rparr>"

definition empty_metadata :: snapshot_metadata where
  "empty_metadata =
     \<lparr>timestamp = ''2024-01-01T00:00:00'', data_summary = [],
      portfolio_name = VStr ''Unknown'', md_total_return = VNum 0,
      md_volatility = VNum 0, md_risk_level = VStr ''Unknown''\<rparr>"

definition example_store :: store where
  "example_store =
     \<lparr>dimension = 4,
      index = \<lparr>ix_d = 4, ix_vectors = [[2, 3 / 2, 1 / 2, 1 / 5], [0, 0, 0, 0]]\<rparr>,
      embeddings = [[2, 3 / 2, 1 / 2, 1 / 5], [0, 0, 0, 0]],
      metadata = [example_metadata, empty_metadata],
      is_trained = True\<rparr>"

definition example_items :: "(pydict \<times> string option) list" where
  "example_items = [(example_snapshot, Some ''2023-12-31''), ([], None)]"

definition example_cleaned :: workbook where
  "example_cleaned =
     example_workbook
       (''Portfolio_Overview'' \<mapsto> Overview [clean_overview_row example_overview],
        ''Holdings_Detail'' \<mapsto> Holdings (map clean_holding example_holdings),
        ''Historical_Performance'' \<mapsto> Series [perf_row 1 10, perf_row 2 20, perf_row 3 30],
        ''Benchmarks'' \<mapsto> Series [],
        ''Risk_Metrics'' \<mapsto> Series [risk_row 2 1, risk_row 4 3, risk_row 5 2],
        ''Cash_Flows'' \<mapsto> Series [],
        ''Market_Data'' \<mapsto> Series [])"

definition example_top :: "holding list" where
  "example_top =
     map clean_holding
       [stock ''E'' ''Bank'' (Num 90), stock ''H'' ''Tech'' (Num 80),
        stock ''B'' ''Bank'' (Num 70), stock ''G'' ''Auto'' (Num 60),
        stock ''A'' ''Tech'' (Num 50), stock ''J'' ''Tech'' (Num 40),
        stock ''I'' ''Bank'' (Num 30), stock ''D'' ''Tech'' (NumText 20),
        stock ''L'' ''Bank'' (Num 15), stock ''F'' ''Auto'' (Num 10)]"

definition example_record :: "string \<Rightarrow> string \<Rightarrow> real \<Rightarrow> (string \<times> field_value) list" where
  "example_record name sector mv =
     [(''Asset_Name'', StrV name), (''Ticker_Symbol'', StrV name),
      (''Market_Value'', CellV (Num mv)), (''Weight_Percent'', CellV (Num (1 / 4))),
      (''Sector'', StrV sector)]"

definition example_processed :: processed where
  "example_processed =
     \<lparr>p_portfolio_summary = Some
        \<lparr>fund_name = ''Alpha Growth'', total_aum = Num 5000, base_currency = ''INR'',
         target_return = Num (1 / 10), risk_level = ''Moderate'', benchmark = ''NIFTY 50'',
         total_holdings = 12, total_market_value = 470, inception_date = DateAt 100\<rparr>,
      p_top_holdings = Some
        [example_record ''E'' ''Bank'' 90, example_record ''H'' ''Tech'' 80,
         example_record ''B'' ''Bank'' 70, example_record ''G'' ''Auto'' 60,
         example_record ''A'' ''Tech'' 50, example_record ''J'' ''Tech'' 40,
         example_record ''I'' ''Bank'' 30, example_record ''D'' ''Tech'' 20,
         example_record ''L'' ''Bank'' 15, example_record ''F'' ''Auto'' 10],
      p_sector_allocation = Some [(''Bank'', 205), (''Tech'', 190), (''Auto'', 75)],
      p_performance_summary = Some
        \<lparr>current_value = 30, total_return = 3 / 10, daily_return = 0, volatility = 1 / 5,
         sharpe_ratio = 1, max_drawdown = - (1 / 10), active_return = 0\<rparr>,
      p_risk_summary = Some
        \<lparr>portfolio_beta = 2, var_95 = 1000, cvar_95 = 1500, tracking_error = 0,
         correlation_benchmark = 1, concentration_risk = 0, liquidity_score = 8\<rparr>\<rparr>"

text \<open>
  The example workbook with a second performance row whose Date cell is blank.
\<close>

definition undated_row :: series_row where
  "undated_row = (perf_row 0 99)\<lparr>Date := NaT\<rparr>"

definition blank_date_workbook :: workbook where
  "blank_date_workbook =
     example_workbook(''Historical_Performance'' \<mapsto> Series [perf_row 3 30, undated_row])"

definition blank_date_cleaned :: workbook where
  "blank_date_cleaned =
     blank_date_workbook
       (''Portfolio_Overview'' \<mapsto> Overview [clean_overview_row example_overview],
        ''Holdings_Detail'' \<mapsto> Holdings (map clean_holding example_holdings),
        ''Historical_Performance'' \<mapsto> Series [perf_row 3 30, undated_row],
        ''Benchmarks'' \<mapsto> Series [],
        ''Risk_Metrics'' \<mapsto> Series [risk_row 2 1, risk_row 4 3, risk_row 5 2],
        ''Cash_Flows'' \<mapsto> Series [],
        ''Market_Data'' \<mapsto> Series [])"

definition blank_date_processed :: processed where
  "blank_date_processed =
     example_processed
       \<lparr>p_performance_summary := Some
          \<lparr>current_value = 99, total_return = 99 / 100, daily_return = 0,
           volatility = 1 / 5, sharpe_ratio = 1, max_drawdown = - (1 / 10),
           active_return = 0\<rparr>\<rparr>"

section \<open>Properties of the data processor\<close>

subsection \<open>Exceptions as values\<close>

lemma py_bind_Inl:
  "py_bind m f = Inl err \<longleftrightarrow> m = Inl err \<or> (\<exists>x. m = Inr x \<and> f x = Inl err)"
  by (cases m) (auto simp: py_bind_def)

lemma py_bind_Inr: "py_bind m f = Inr y \<longleftrightarrow> (\<exists>x. m = Inr x \<and> f x = Inr y)"
  by (cases m) (auto simp: py_bind_def)

lemma py_all_map_not:
  "(\<And>x. f x \<noteq> Inl err) \<Longrightarrow> py_all (map f xs) \<noteq> Inl err"
  by (induction xs) (auto simp: py_bind_Inl)

subsection \<open>Sheet validation\<close>

lemma validate_sheets_ok:
  "validate_sheets names wb = Inr () \<longleftrightarrow> (\<forall>n \<in> set names. wb n \<noteq> None)"
  by (induction names) auto

lemma validate_sheets_first:
  "validate_sheets names wb =
     (case List.find (\<lambda>n. wb n = None) names of
        None \<Rightarrow> Inr ()
      | Some n \<Rightarrow> Inl (ValueError (''Missing required sheet: '' @ n)))"
  by (induction names) auto

lemma py_all_map_Inl: "py_all (map f xs) = Inl err \<Longrightarrow> \<exists>x \<in> set xs. f x = Inl err"
  by (induction xs) (auto simp: py_bind_Inl)

text \<open>The only \<open>ValueError\<close> of the cleaning step is the one of \<open>pd.to_datetime\<close>.\<close>

lemma to_datetime_error: "to_datetime c = Inl (ValueError msg) \<Longrightarrow> hd msg = CHR ''U''"
  by (cases c) auto

lemma to_datetime_column_error:
  assumes "to_datetime_column get_cell set_cell rows = Inl (ValueError msg)"
  shows "hd msg = CHR ''U''"
proof -
  from assms obtain r where
    "py_bind (to_datetime (get_cell r)) (\<lambda>d. Inr (set_cell d r)) = Inl (ValueError msg)"
    unfolding to_datetime_column_def by (blast dest: py_all_map_Inl)
  then have "to_datetime (get_cell r) = Inl (ValueError msg)"
    by (simp add: py_bind_Inl)
  then show ?thesis by (rule to_datetime_error)
qed

lemma clean_overview_error:
  "clean_overview wb = Inl (ValueError msg) \<Longrightarrow> hd msg = CHR ''U''"
  by (auto simp: clean_overview_def py_bind_Inl split: option.splits sheet.splits
      dest: to_datetime_column_error)

lemma clean_holdings_error:
  "clean_holdings wb = Inl (ValueError msg) \<Longrightarrow> hd msg = CHR ''U''"
  by (auto simp: clean_holdings_def py_bind_Inl split: option.splits sheet.splits
      dest: to_datetime_column_error)

lemma clean_series_error:
  "clean_series names wb = Inl (ValueError msg) \<Longrightarrow> hd msg = CHR ''U''"
proof (induction names arbitrary: wb)
  case Nil
  then show ?case by simp
next
  case (Cons a names)
  show ?case
  proof (cases "wb a")
    case None
    with Cons show ?thesis by simp
  next
    case (Some sh)
    show ?thesis
    proof (cases sh)
      case (Series rows)
      with Cons.prems Some consider
        "to_datetime_column Date (\<lambda>d r. r\<lparr>Date := d\<rparr>) rows = Inl (ValueError msg)"
        | rows1 where "clean_series names (wb(a \<mapsto> Series (sort_values_Date rows1))) =
            Inl (ValueError msg)"
        by (auto simp: py_bind_Inl)
      then show ?thesis
        by cases (auto dest: to_datetime_column_error Cons.IH)
    qed (use Cons.prems Some in simp_all)
  qed
qed

lemma clean_data_error: "clean_data wb = Inl (ValueError msg) \<Longrightarrow> hd msg = CHR ''U''"
  by (auto simp: clean_data_def py_bind_Inl
      dest: clean_overview_error clean_holdings_error clean_series_error)

lemma col_not_ValueError: "col r c \<noteq> Inl (ValueError msg)"
  by (auto simp: col_def split: option.splits)

lemma summarise_portfolio_not_ValueError: "summarise_portfolio wb \<noteq> Inl (ValueError msg)"
  by (auto simp: summarise_portfolio_def iloc_first_def py_bind_def
      split: option.splits sheet.splits list.splits)

lemma summarise_top_holdings_not_ValueError:
  "summarise_top_holdings wb \<noteq> Inl (ValueError msg)"
  by (auto simp: summarise_top_holdings_def nlargest_def py_bind_def
      split: option.splits sheet.splits)

lemma summarise_sectors_not_ValueError: "summarise_sectors wb \<noteq> Inl (ValueError msg)"
  by (auto simp: summarise_sectors_def split: option.splits sheet.splits)

lemma performance_of_row_not_ValueError: "performance_of_row r \<noteq> Inl (ValueError msg)"
  by (simp add: performance_of_row_def py_bind_Inl col_not_ValueError)

lemma risk_of_row_not_ValueError: "risk_of_row r \<noteq> Inl (ValueError msg)"
  by (simp add: risk_of_row_def py_bind_Inl col_not_ValueError)

lemma summarise_latest_not_ValueError:
  "(\<And>r. of_row r \<noteq> Inl (ValueError msg)) \<Longrightarrow>
   summarise_latest wb name of_row \<noteq> Inl (ValueError msg)"
  by (auto simp: summarise_latest_def iloc_last_def py_bind_Inl
      split: option.splits sheet.splits)

lemma calculate_metrics_not_ValueError: "calculate_metrics wb \<noteq> Inl (ValueError msg)"
  by (simp add: calculate_metrics_def py_bind_Inl summarise_portfolio_not_ValueError
      summarise_top_holdings_not_ValueError summarise_sectors_not_ValueError
      summarise_latest_not_ValueError performance_of_row_not_ValueError
      risk_of_row_not_ValueError)

text \<open>
  C3. \<open>load_excel_file\<close> raises the \<open>ValueError\<close> that names a missing sheet whenever one
  of the seven expected sheets is absent from the workbook; when all seven are present
  the validation loop passes and \<open>load_excel_file\<close> raises no missing-sheet error.
\<close>

theorem load_excel_file_sheet_validation:
  "((\<exists>sheet \<in> set expected_sheets. excel_data sheet = None) \<longrightarrow>
      (\<exists>sheet \<in> set expected_sheets. excel_data sheet = None \<and>
         load_excel_file excel_data = Inl (ValueError (''Missing required sheet: '' @ sheet)))) \<and>
   ((\<forall>sheet \<in> set expected_sheets. excel_data sheet \<noteq> None) \<longrightarrow>
      validate_sheets expected_sheets excel_data = Inr () \<and>
      (\<forall>sheet. load_excel_file excel_data \<noteq>
         Inl (ValueError (''Missing required sheet: '' @ sheet))))"
proof (intro conjI impI)
  assume missing: "\<exists>sheet \<in> set expected_sheets. excel_data sheet = None"
  then obtain n where n: "List.find (\<lambda>n. excel_data n = None) expected_sheets = Some n"
    by (cases "List.find (\<lambda>n. excel_data n = None) expected_sheets") (auto simp: find_None_iff)
  then have "n \<in> set expected_sheets" "excel_data n = None"
    by (auto simp: find_Some_iff)
  moreover have "load_excel_file excel_data = Inl (ValueError (''Missing required sheet: '' @ n))"
    using n by (simp add: load_excel_file_def validate_sheets_first py_bind_def)
  ultimately show "\<exists>sheet \<in> set expected_sheets. excel_data sheet = None \<and>
         load_excel_file excel_data = Inl (ValueError (''Missing required sheet: '' @ sheet))"
    by blast
next
  assume present: "\<forall>sheet \<in> set expected_sheets. excel_data sheet \<noteq> None"
  then show valid: "validate_sheets expected_sheets excel_data = Inr ()"
    by (simp add: validate_sheets_ok)
  show "\<forall>sheet. load_excel_file excel_data \<noteq>
      Inl (ValueError (''Missing required sheet: '' @ sheet))"
  proof (intro allI notI)
    fix sheet
    assume "load_excel_file excel_data =
      Inl (ValueError (''Missing required sheet: '' @ sheet))"
    with valid have "clean_data excel_data =
      Inl (ValueError (''Missing required sheet: '' @ sheet))"
      by (auto simp: load_excel_file_def py_bind_Inl calculate_metrics_not_ValueError)
    from clean_data_error [OF this] show False by simp
  qed
qed

theorem load_excel_file_sheet_validation_witness:
  "load_excel_file (example_workbook(''Benchmarks'' := None)) =
     Inl (ValueError ''Missing required sheet: Benchmarks'') \<and>
   validate_sheets expected_sheets example_workbook = Inr ()"
proof
  have "\<exists>sheet \<in> set expected_sheets. (example_workbook(''Benchmarks'' := None)) sheet = None"
    by (simp add: expected_sheets_def)
  with load_excel_file_sheet_validation [of "example_workbook(''Benchmarks'' := None)"]
  have "\<exists>sheet \<in> set expected_sheets.
          (example_workbook(''Benchmarks'' := None)) sheet = None \<and>
          load_excel_file (example_workbook(''Benchmarks'' := None)) =
            Inl (ValueError (''Missing required sheet: '' @ sheet))"
    by blast
  then show "load_excel_file (example_workbook(''Benchmarks'' := None)) =
     Inl (ValueError ''Missing required sheet: Benchmarks'')"
    by (simp add: expected_sheets_def example_workbook_def)
next
  have "\<forall>sheet \<in> set expected_sheets. example_workbook sheet \<noteq> None"
    by (simp add: expected_sheets_def example_workbook_def)
  with load_excel_file_sheet_validation [of example_workbook]
  show "validate_sheets expected_sheets example_workbook = Inr ()"
    by blast
qed

section \<open>Properties of the vector store\<close>

subsection \<open>Feature vectors\<close>

lemma pad_eq: "pad dm features = features @ replicate (dm - length features) 0"
proof (induction dm features rule: pad.induct)
  case (1 dm features)
  show ?case
  proof (cases "length features < dm")
    case True
    then have "dm - length features = Suc (dm - Suc (length features))" by simp
    with True 1 show ?thesis
      by (subst pad.simps) (simp add: replicate_app_Cons_same)
  next
    case False
    then show ?thesis by (subst pad.simps) simp
  qed
qed

lemma length_create_embeddings: "length (create_embeddings e dm dct) = dm"
  by (auto simp: create_embeddings_def pad_eq split: sum.splits)

lemma py_all_length: "py_all ms = Inr xs \<Longrightarrow> length xs = length ms"
  by (induction ms arbitrary: xs) (auto simp: py_bind_Inr)

lemma block_length:
  "(\<And>v xs. f v = Inr xs \<Longrightarrow> length xs \<le> n) \<Longrightarrow> block_of dct key f = Inr xs \<Longrightarrow>
   length xs \<le> n"
  by (auto simp: block_of_def split: option.splits)

lemma portfolio_features_length: "portfolio_features e v = Inr xs \<Longrightarrow> length xs \<le> 3"
  by (auto simp: portfolio_features_def py_bind_Inr)

lemma performance_features_length: "performance_features e v = Inr xs \<Longrightarrow> length xs \<le> 6"
  unfolding performance_features_def by (drule py_all_length) simp

lemma risk_features_length: "risk_features e v = Inr xs \<Longrightarrow> length xs \<le> 6"
  by (auto simp: risk_features_def py_bind_Inr)

lemma sector_features_length: "sector_features v = Inr xs \<Longrightarrow> length xs \<le> 6"
  by (auto simp: sector_features_def py_bind_Inr split: if_splits dest!: py_all_length)

lemma extract_features_length:
  assumes "extract_features e dct = Inr features"
  shows "length features \<le> 21"
proof -
  from assms obtain f1 f2 f3 f4 where
    "block_of dct ''portfolio_summary'' (portfolio_features e) = Inr f1"
    "block_of dct ''performance_summary'' (performance_features e) = Inr f2"
    "block_of dct ''risk_summary'' (risk_features e) = Inr f3"
    "block_of dct ''sector_allocation'' sector_features = Inr f4"
    "features = f1 @ f2 @ f3 @ f4"
    by (auto simp: extract_features_def py_bind_Inr)
  then show ?thesis
    using block_length [OF portfolio_features_length]
      block_length [OF performance_features_length]
      block_length [OF risk_features_length] block_length [OF sector_features_length]
    by fastforce
qed

lemma extract_example:
  "extract_features example_env example_snapshot =
     Inr [2, 3 / 2, 1 / 2, 1 / 5, 0, 1 / 10, 0, - (1 / 20), 0, 3 / 4, 1 / 4, 5 / 8]"
  by (simp add: extract_features_def block_of_def example_snapshot_def example_env_def
      portfolio_features_def performance_features_def risk_features_def sector_features_def
      get_float_def py_bind_def py_sum_def py_div_def power2_eq_square)

lemma extract_broken:
  "extract_features example_env broken_snapshot =
     Inl (ValueError ''could not convert string to float'')"
  by (simp add: extract_features_def block_of_def broken_snapshot_def example_env_def
      portfolio_features_def get_float_def py_bind_def)

text \<open>
  C2. For every data dictionary, whatever keys it has, \<open>_create_embeddings\<close> returns a
  vector of exactly \<open>dimension\<close> numbers: the extracted features (at most 21 of them)
  padded with zeros or cut to that length, and the all-zero vector when the extraction
  raises.
\<close>

theorem create_embeddings_fixed_length:
  "length (create_embeddings e dm dct) = dm \<and>
   (\<forall>features. extract_features e dct = Inr features \<longrightarrow>
      length features \<le> 21 \<and>
      create_embeddings e dm dct = take dm (features @ replicate (dm - length features) 0)) \<and>
   (\<forall>err. extract_features e dct = Inl err \<longrightarrow> create_embeddings e dm dct = replicate dm 0)"
proof (intro conjI allI impI)
  show "length (create_embeddings e dm dct) = dm"
    by (rule length_create_embeddings)
qed (simp_all add: create_embeddings_def pad_eq extract_features_length)

theorem create_embeddings_fixed_length_witness:
  "extract_features example_env example_snapshot =
     Inr [2, 3 / 2, 1 / 2, 1 / 5, 0, 1 / 10, 0, - (1 / 20), 0, 3 / 4, 1 / 4, 5 / 8] \<and>
   create_embeddings example_env 14 example_snapshot =
     [2, 3 / 2, 1 / 2, 1 / 5, 0, 1 / 10, 0, - (1 / 20), 0, 3 / 4, 1 / 4, 5 / 8, 0, 0] \<and>
   create_embeddings example_env 4 example_snapshot = [2, 3 / 2, 1 / 2, 1 / 5] \<and>
   extract_features example_env broken_snapshot =
     Inl (ValueError ''could not convert string to float'') \<and>
   create_embeddings example_env 4 broken_snapshot = [0, 0, 0, 0] \<and>
   length (create_embeddings example_env 384 []) = 384"
  using create_embeddings_fixed_length [of example_env 14 example_snapshot]
    create_embeddings_fixed_length [of example_env 4 example_snapshot]
    create_embeddings_fixed_length [of example_env 4 broken_snapshot]
    create_embeddings_fixed_length [of example_env 384 "[]"]
  by (simp add: extract_example extract_broken numeral_eq_Suc)

section \<open>Properties of calculate\_portfolio\_metrics\<close>

lemma py_get_no_zero_division: "py_get obj key dflt \<noteq> Inl ZeroDivisionError"
  by (cases obj) auto

lemma number_no_zero_division: "number v \<noteq> Inl ZeroDivisionError"
  by (cases v) auto

lemma py_values_no_zero_division: "py_values v \<noteq> Inl ZeroDivisionError"
  by (cases v) auto

lemma py_slice_no_zero_division: "py_slice n v \<noteq> Inl ZeroDivisionError"
  by (cases v) auto

lemma py_sum_no_zero_division: "py_sum vs \<noteq> Inl ZeroDivisionError"
  by (auto simp: py_sum_def py_bind_Inl number_no_zero_division py_all_map_not)

lemma py_all_div:
  "t \<noteq> 0 \<Longrightarrow> py_all (map (\<lambda>w. py_div w t) ws) = Inr (map (\<lambda>w. w / t) ws)"
  by (induction ws) (auto simp: py_bind_def py_div_def)

lemma performance_metrics_no_zero_division:
  "performance_metrics perf \<noteq> Inl ZeroDivisionError"
  by (auto simp: performance_metrics_def py_bind_Inl py_get_no_zero_division
      number_no_zero_division py_div_def split: if_splits)

lemma weight_sum_no_zero_division: "weight_sum n v \<noteq> Inl ZeroDivisionError"
  by (auto simp: weight_sum_def py_bind_Inl py_slice_no_zero_division py_sum_no_zero_division
      py_get_no_zero_division py_all_map_not)

lemma herfindahl_metric_no_zero_division: "herfindahl_metric v \<noteq> Inl ZeroDivisionError"
  by (auto simp: herfindahl_metric_def py_bind_Inl py_values_no_zero_division
      py_sum_no_zero_division py_all_div number_no_zero_division py_all_map_not)

lemma holdings_metrics_no_zero_division: "holdings_metrics v \<noteq> Inl ZeroDivisionError"
  by (auto simp: holdings_metrics_def py_bind_Inl py_get_no_zero_division
      weight_sum_no_zero_division herfindahl_metric_no_zero_division)

lemma block_of_not:
  "(\<And>v. f v \<noteq> Inl err) \<Longrightarrow> block_of dct key f \<noteq> Inl err"
  by (auto simp: block_of_def split: option.splits)

lemma calculate_portfolio_metrics_no_zero_division:
  "calculate_portfolio_metrics dct \<noteq> Inl ZeroDivisionError"
  by (simp add: calculate_portfolio_metrics_def py_bind_Inl block_of_not
      performance_metrics_no_zero_division holdings_metrics_no_zero_division)

lemma py_all_number: "py_all (map number vs) = Inr ws \<longleftrightarrow> vs = map VNum ws"
proof (induction vs arbitrary: ws)
  case Nil
  then show ?case by auto
next
  case (Cons v vs)
  show ?case
    by (cases v; cases ws) (auto simp: py_bind_Inr Cons.IH)
qed

lemma map_VNum_eq: "map VNum xs = map VNum ys \<longleftrightarrow> xs = ys"
  by (rule inj_map_eq_map) (simp add: inj_def)

lemma number_Inr: "number v = Inr r \<longleftrightarrow> v = VNum r"
  by (cases v) auto

lemma performance_metrics_values:
  assumes "performance_metrics perf = Inr m"
  shows "\<exists>vol mdd.
      py_get perf ''volatility'' (VNum 0) = Inr (VNum vol) \<and>
      py_get perf ''max_drawdown'' (VNum 0) = Inr (VNum mdd) \<and>
      (if vol > 0
       then \<exists>ret. py_get perf ''total_return'' (VNum 0) = Inr (VNum ret) \<and>
              map_of m ''return_volatility_ratio'' = Some (Finite (ret / vol))
       else map_of m ''return_volatility_ratio'' = Some (Finite 0)) \<and>
      (if mdd < 0
       then \<exists>ret. py_get perf ''total_return'' (VNum 0) = Inr (VNum ret) \<and>
              map_of m ''recovery_factor'' = Some (Finite (ret / \<bar>mdd\<bar>))
       else map_of m ''recovery_factor'' = Some Infinity) \<and>
      map fst m = [''return_volatility_ratio'', ''recovery_factor'']"
proof -
  from assms obtain total_return vol ratio mdd recovery where
    tr: "py_get perf ''total_return'' (VNum 0) = Inr total_return" and
    vol: "py_get perf ''volatility'' (VNum 0) = Inr (VNum vol)" and
    ratio: "(if vol > 0 then py_bind (number total_return) (\<lambda>ret. py_div ret vol) else Inr 0)
              = Inr ratio" and
    mdd: "py_get perf ''max_drawdown'' (VNum 0) = Inr (VNum mdd)" and
    recovery: "(if mdd < 0
                then py_bind (number total_return) (\<lambda>ret.
                     py_bind (py_div ret \<bar>mdd\<bar>) (\<lambda>x. Inr (Finite x)))
                else Inr Infinity) = Inr recovery" and
    m: "m = [(''return_volatility_ratio'', Finite ratio), (''recovery_factor'', recovery)]"
    unfolding performance_metrics_def py_bind_Inr number_Inr by blast
  have r1: "if vol > 0
       then \<exists>ret. total_return = VNum ret \<and> ratio = ret / vol
       else ratio = 0"
    using ratio by (auto simp: py_bind_Inr number_Inr py_div_def split: if_splits)
  have r2: "if mdd < 0
       then \<exists>ret. total_return = VNum ret \<and> recovery = Finite (ret / \<bar>mdd\<bar>)
       else recovery = Infinity"
    using recovery by (auto simp: py_bind_Inr number_Inr py_div_def split: if_splits)
  have g1: "if vol > 0
       then \<exists>ret. py_get perf ''total_return'' (VNum 0) = Inr (VNum ret) \<and>
              map_of m ''return_volatility_ratio'' = Some (Finite (ret / vol))
       else map_of m ''return_volatility_ratio'' = Some (Finite 0)"
    using r1 by (cases "vol > 0") (auto simp: m tr)
  have g2: "if mdd < 0
       then \<exists>ret. py_get perf ''total_return'' (VNum 0) = Inr (VNum ret) \<and>
              map_of m ''recovery_factor'' = Some (Finite (ret / \<bar>mdd\<bar>))
       else map_of m ''recovery_factor'' = Some Infinity"
    using r2 by (cases "mdd < 0") (auto simp: m tr)
  have g3: "map fst m = [''return_volatility_ratio'', ''recovery_factor'']"
    by (simp add: m)
  show ?thesis
    apply (rule exI [of _ vol])
    apply (rule exI [of _ mdd])
    apply (intro conjI)
        apply (rule vol)
       apply (rule mdd)
      apply (rule g1)
     apply (rule g2)
    apply (rule g3)
    done
qed


lemma herfindahl_metric_values:
  assumes "herfindahl_metric alloc = Inr m" and "map_of m key = Some h"
  shows "\<exists>ws. py_values alloc = Inr (map VNum ws) \<and> sum_list ws > 0 \<and>
           key = ''sector_herfindahl'' \<and>
           h = Finite (\<Sum>w\<leftarrow>ws. (w / sum_list ws) ^ 2)"
proof (cases "truthy alloc")
  case False
  with assms show ?thesis by (simp add: herfindahl_metric_def)
next
  case True
  with assms(1) obtain ws where vs: "py_values alloc = Inr (map VNum ws)"
    and rest: "(if sum_list ws > 0 then
            py_bind (py_all (map number (map VNum ws))) (\<lambda>ws'.
            py_bind (py_all (map (\<lambda>w. py_div w (sum_list ws)) ws')) (\<lambda>shares.
              Inr [(''sector_herfindahl'', Finite (sum_list (map (\<lambda>x. x ^ 2) shares)))]))
          else Inr []) = Inr m"
    by (auto simp: herfindahl_metric_def py_bind_Inr py_sum_def py_all_number)
  show ?thesis
  proof (cases "sum_list ws > 0")
    case False
    with rest assms(2) show ?thesis by simp
  next
    case pos: True
    have "py_all (map number (map VNum ws)) = Inr ws"
      by (simp only: py_all_number)
    with rest pos have "m = [(''sector_herfindahl'',
        Finite (sum_list (map (\<lambda>x. x ^ 2) (map (\<lambda>w. w / sum_list ws) ws))))]"
      by (simp add: py_bind_def py_all_div)
    with assms(2) vs pos show ?thesis
      by (auto simp: comp_def split: if_splits)
  qed
qed

lemma holdings_metrics_values:
  assumes "holdings_metrics holdings = Inr m" and "map_of m ''sector_herfindahl'' = Some h"
  shows "\<exists>alloc ws. py_get holdings ''sector_allocation'' (VDict []) = Inr alloc \<and>
           py_values alloc = Inr (map VNum ws) \<and> sum_list ws > 0 \<and>
           h = Finite (\<Sum>w\<leftarrow>ws. (w / sum_list ws) ^ 2)"
proof -
  from assms obtain top where top: "py_get holdings ''top_holdings'' (VList []) = Inr top"
    by (auto simp: holdings_metrics_def py_bind_Inr)
  show ?thesis
  proof (cases "truthy top")
    case False
    with assms top show ?thesis by (simp add: holdings_metrics_def py_bind_def)
  next
    case True
    with assms(1) top obtain w5 w10 alloc hm where
      alloc: "py_get holdings ''sector_allocation'' (VDict []) = Inr alloc" and
      hm: "herfindahl_metric alloc = Inr hm" and
      m: "m = [(''top_5_concentration'', Finite w5), (''top_10_concentration'', Finite w10)] @ hm"
      by (auto simp: holdings_metrics_def py_bind_Inr)
    from assms(2) have "map_of hm ''sector_herfindahl'' = Some h"
      by (simp add: m)
    from herfindahl_metric_values [OF hm this] alloc show ?thesis by blast
  qed
qed

text \<open>
  C10. \<open>calculate_portfolio_metrics\<close> never raises \<open>ZeroDivisionError\<close>.
  \<open>return_volatility_ratio\<close> is \<open>total_return / volatility\<close> when \<open>volatility > 0\<close>
  and 0 otherwise; \<open>recovery_factor\<close> is \<open>total_return / |max_drawdown|\<close> when
  \<open>max_drawdown < 0\<close> and infinity otherwise; \<open>sector_herfindahl\<close> is present only
  when the sector values sum to a positive total, and is then the sum of the squared
  shares.
\<close>

theorem calculate_portfolio_metrics_safe:
  "calculate_portfolio_metrics dct \<noteq> Inl ZeroDivisionError \<and>
   (\<forall>perf m. map_of dct ''performance_summary'' = Some perf \<longrightarrow>
      calculate_portfolio_metrics dct = Inr m \<longrightarrow>
      (\<exists>vol mdd.
         py_get perf ''volatility'' (VNum 0) = Inr (VNum vol) \<and>
         py_get perf ''max_drawdown'' (VNum 0) = Inr (VNum mdd) \<and>
         (if vol > 0
          then \<exists>ret. py_get perf ''total_return'' (VNum 0) = Inr (VNum ret) \<and>
                 map_of m ''return_volatility_ratio'' = Some (Finite (ret / vol))
          else map_of m ''return_volatility_ratio'' = Some (Finite 0)) \<and>
         (if mdd < 0
          then \<exists>ret. py_get perf ''total_return'' (VNum 0) = Inr (VNum ret) \<and>
                 map_of m ''recovery_factor'' = Some (Finite (ret / \<bar>mdd\<bar>))
          else map_of m ''recovery_factor'' = Some Infinity))) \<and>
   (\<forall>m h. calculate_portfolio_metrics dct = Inr m \<longrightarrow>
      map_of m ''sector_herfindahl'' = Some h \<longrightarrow>
      (\<exists>holdings alloc ws.
         map_of dct ''holdings_data'' = Some holdings \<and>
         py_get holdings ''sector_allocation'' (VDict []) = Inr alloc \<and>
         py_values alloc = Inr (map VNum ws) \<and> sum_list ws > 0 \<and>
         h = Finite (\<Sum>w\<leftarrow>ws. (w / sum_list ws) ^ 2)))"
proof (intro conjI allI impI)
  show "calculate_portfolio_metrics dct \<noteq> Inl ZeroDivisionError"
    by (rule calculate_portfolio_metrics_no_zero_division)
next
  fix perf m
  assume perf: "map_of dct ''performance_summary'' = Some perf"
    and m: "calculate_portfolio_metrics dct = Inr m"
  then obtain m1 m2 where m1: "performance_metrics perf = Inr m1" and mm: "m = m1 @ m2"
    by (auto simp: calculate_portfolio_metrics_def py_bind_Inr block_of_def)
  from performance_metrics_values [OF m1] obtain vol mdd where v:
    "py_get perf ''volatility'' (VNum 0) = Inr (VNum vol)"
    "py_get perf ''max_drawdown'' (VNum 0) = Inr (VNum mdd)"
    "if vol > 0
       then \<exists>ret. py_get perf ''total_return'' (VNum 0) = Inr (VNum ret) \<and>
              map_of m1 ''return_volatility_ratio'' = Some (Finite (ret / vol))
       else map_of m1 ''return_volatility_ratio'' = Some (Finite 0)"
    "if mdd < 0
       then \<exists>ret. py_get perf ''total_return'' (VNum 0) = Inr (VNum ret) \<and>
              map_of m1 ''recovery_factor'' = Some (Finite (ret / \<bar>mdd\<bar>))
       else map_of m1 ''recovery_factor'' = Some Infinity"
    by blast
  have "map_of m k = Some x" if "map_of m1 k = Some x" for k x
    using that by (simp add: mm map_add_Some_iff)
  with v show "\<exists>vol mdd.
         py_get perf ''volatility'' (VNum 0) = Inr (VNum vol) \<and>
         py_get perf ''max_drawdown'' (VNum 0) = Inr (VNum mdd) \<and>
         (if vol > 0
          then \<exists>ret. py_get perf ''total_return'' (VNum 0) = Inr (VNum ret) \<and>
                 map_of m ''return_volatility_ratio'' = Some (Finite (ret / vol))
          else map_of m ''return_volatility_ratio'' = Some (Finite 0)) \<and>
         (if mdd < 0
          then \<exists>ret. py_get perf ''total_return'' (VNum 0) = Inr (VNum ret) \<and>
                 map_of m ''recovery_factor'' = Some (Finite (ret / \<bar>mdd\<bar>))
          else map_of m ''recovery_factor'' = Some Infinity)"
    by (intro exI [of _ vol] exI [of _ mdd]) (auto split: if_splits)
next
  fix m h
  assume m: "calculate_portfolio_metrics dct = Inr m"
    and h: "map_of m ''sector_herfindahl'' = Some h"
  from m obtain m1 m2 where
    m1: "block_of dct ''performance_summary'' performance_metrics = Inr m1" and
    m2: "block_of dct ''holdings_data'' holdings_metrics = Inr m2" and mm: "m = m1 @ m2"
    by (auto simp: calculate_portfolio_metrics_def py_bind_Inr)
  have "map_of m1 ''sector_herfindahl'' = None"
    using m1 by (auto simp: block_of_def map_of_eq_None_iff
        dest!: performance_metrics_values split: option.splits)
  with h have h2: "map_of m2 ''sector_herfindahl'' = Some h"
    by (simp add: mm map_add_Some_iff)
  then obtain holdings where "map_of dct ''holdings_data'' = Some holdings"
    "holdings_metrics holdings = Inr m2"
    using m2 by (auto simp: block_of_def split: option.splits)
  with holdings_metrics_values [OF _ h2]
  show "\<exists>holdings alloc ws.
         map_of dct ''holdings_data'' = Some holdings \<and>
         py_get holdings ''sector_allocation'' (VDict []) = Inr alloc \<and>
         py_values alloc = Inr (map VNum ws) \<and> sum_list ws > 0 \<and>
         h = Finite (\<Sum>w\<leftarrow>ws. (w / sum_list ws) ^ 2)"
    by blast
qed

theorem calculate_portfolio_metrics_safe_witness:
  "calculate_portfolio_metrics example_metrics_input =
     Inr [(''return_volatility_ratio'', Finite 2), (''recovery_factor'', Finite 4),
          (''top_5_concentration'', Finite (3 / 4)), (''top_10_concentration'', Finite (3 / 4)),
          (''sector_herfindahl'', Finite (5 / 8))] \<and>
   calculate_portfolio_metrics flat_metrics_input =
     Inr [(''return_volatility_ratio'', Finite 0), (''recovery_factor'', Infinity),
          (''top_5_concentration'', Finite 1), (''top_10_concentration'', Finite 1)]"
  using calculate_portfolio_metrics_safe [of example_metrics_input]
    calculate_portfolio_metrics_safe [of flat_metrics_input]
  by (simp add: calculate_portfolio_metrics_def block_of_def example_metrics_input_def
      flat_metrics_input_def performance_metrics_def holdings_metrics_def weight_sum_def
      herfindahl_metric_def py_bind_def py_sum_def py_div_def power2_eq_square)

section \<open>Properties of \_parse\_recommendations\<close>

lemma py_item_0: "xs \<noteq> [] \<Longrightarrow> py_item xs 0 = Inr (hd xs)"
  by (cases xs) (auto simp: py_item_def)

lemma py_item_split_once:
  "sep \<in> set s \<Longrightarrow> py_item (split_once sep s) 1 = Inr (tl (dropWhile (\<lambda>c. c \<noteq> sep) s))"
  by (simp add: split_once_def py_item_def)

lemma parse_line_ok:
  "\<exists>st'. parse_line st raw = Inr st' \<and> (tidy_state st \<longrightarrow> tidy_state st')"
proof (cases "strip raw = []")
  case True
  then show ?thesis by (simp add: parse_line_def)
next
  case False
  obtain recs cur where st: "st = (recs, cur)" by (cases st)
  show ?thesis
  proof (cases "isdigit (hd (strip raw)) \<and> CHR ''.'' \<in> set (take 3 (strip raw))")
    case True
    then have "CHR ''.'' \<in> set (strip raw)" by (auto dest: in_set_takeD)
    with True False show ?thesis
      by (auto simp: parse_line_def st py_item_0 py_item_split_once py_bind_def tidy_state_def
          tidy_def Let_def split: option.splits)
  next
    case no: False
    with False show ?thesis
      by (cases cur)
        (auto simp: parse_line_def st py_item_0 py_bind_def tidy_state_def tidy_def Let_def)
  qed
qed

lemma parse_lines_ok:
  "\<exists>st'. parse_lines st raws = Inr st' \<and> (tidy_state st \<longrightarrow> tidy_state st')"
proof (induction raws arbitrary: st)
  case Nil
  then show ?case by simp
next
  case (Cons raw raws)
  from parse_line_ok [of st raw] obtain st1 where
    st1: "parse_line st raw = Inr st1" "tidy_state st \<longrightarrow> tidy_state st1" by blast
  from Cons.IH [of st1] obtain st2 where
    "parse_lines st1 raws = Inr st2" "tidy_state st1 \<longrightarrow> tidy_state st2" by blast
  with st1 show ?case by simp
qed

lemma clean_up_tidy:
  assumes "tidy r"
  shows "tidy (clean_up r)" and "title (clean_up r) = title r"
    and "title r \<noteq> [] \<longrightarrow> description (clean_up r) \<noteq> []"
    and "description (clean_up r) = [] \<longrightarrow> title r = []"
  using assms by (auto simp: clean_up_def tidy_def Let_def)

lemma parse_try_ok:
  "\<exists>recs. parse_try response = Inr recs \<and>
     (\<forall>r \<in> set recs. tidy r \<and> (title r \<noteq> [] \<longrightarrow> description r \<noteq> []))"
proof -
  have "tidy_state ([], None)" by (simp add: tidy_state_def)
  with parse_lines_ok [of "([], None)" "split CHR 0x0A response"] obtain recs cur where
    pl: "parse_lines ([], None) (split CHR 0x0A response) = Inr (recs, cur)" and
    t: "tidy_state (recs, cur)"
    by (metis surj_pair)
  let ?all = "case cur of None \<Rightarrow> recs | Some r \<Rightarrow> recs @ [r]"
  have all: "\<forall>r \<in> set ?all. tidy r"
    using t by (auto simp: tidy_state_def split: option.splits)
  have "parse_try response = Inr (map clean_up ?all)"
    by (simp add: parse_try_def pl)
  moreover have "\<forall>r \<in> set (map clean_up ?all). tidy r \<and> (title r \<noteq> [] \<longrightarrow> description r \<noteq> [])"
    using all clean_up_tidy by (auto simp del: set_append)
  ultimately show ?thesis by blast
qed

text \<open>
  C6 (amended). For every response string \<open>_parse_recommendations\<close> returns at most 7
  records of the five fields; the \<open>try\<close> block never raises, so the result is the
  parsed list cut to seven; \<open>priority\<close> is High, Medium or Low; \<open>rationale\<close> equals
  \<open>description\<close>; and both are non-empty whenever the \<open>title\<close> is non-empty.
\<close>

theorem parse_recommendations_shape:
  "length (parse_recommendations response) \<le> 7 \<and>
   (\<exists>recs. parse_try response = Inr recs \<and> parse_recommendations response = take 7 recs) \<and>
   (\<forall>r \<in> set (parse_recommendations response).
      priority r \<in> {''High'', ''Medium'', ''Low''} \<and>
      rationale r = description r \<and>
      (title r \<noteq> [] \<longrightarrow> description r \<noteq> [] \<and> rationale r \<noteq> []))"
proof -
  from parse_try_ok [of response] obtain recs where
    recs: "parse_try response = Inr recs"
      "\<forall>r \<in> set recs. tidy r \<and> (title r \<noteq> [] \<longrightarrow> description r \<noteq> [])"
    by blast
  then have eq: "parse_recommendations response = take 7 recs"
    by (simp add: parse_recommendations_def)
  have "\<forall>r \<in> set (take 7 recs). tidy r \<and> (title r \<noteq> [] \<longrightarrow> description r \<noteq> [])"
    using recs(2) by (auto dest: in_set_takeD)
  then show ?thesis
    using recs(1) eq by (auto simp: tidy_def)
qed

lemma example_parse:
  "parse_recommendations example_response =
     [\<lparr>title = ''Trim tech'', description = ''Reduce exposure'', priority = ''High'',
       rationale = ''Reduce exposure'', impact = []\<rparr>,
      \<lparr>title = ''Add bonds'', description = ''Add bonds'', priority = ''Medium'',
       rationale = ''Add bonds'', impact = []\<rparr>]"
  by code_simp

theorem parse_recommendations_shape_witness:
  "parse_recommendations example_response =
     [\<lparr>title = ''Trim tech'', description = ''Reduce exposure'', priority = ''High'',
       rationale = ''Reduce exposure'', impact = []\<rparr>,
      \<lparr>title = ''Add bonds'', description = ''Add bonds'', priority = ''Medium'',
       rationale = ''Add bonds'', impact = []\<rparr>] \<and>
   length (parse_recommendations example_response) \<le> 7"
  using parse_recommendations_shape [of example_response]
  by (simp add: example_parse)

text \<open>
  C6 as stated fails: a numbered line with nothing after the dot has an empty title,
  and the description and the rationale fall back to it.
\<close>

theorem parse_recommendations_empty_description:
  "parse_recommendations ''1.'' =
     [\<lparr>title = [], description = [], priority = ''Medium'', rationale = [], impact = []\<rparr>]"
  by (simp add: parse_recommendations_def parse_try_def parse_line_def strip_def is_space_def
      isdigit_def py_item_def split_once_def py_bind_def clean_up_def Let_def)

section \<open>Persistence and growth of the vector store\<close>

lemma summary_example:
  "create_data_summary example_env example_snapshot = Inr (data_summary example_metadata)"
  by (simp add: create_data_summary_def block_of_def example_snapshot_def example_env_def
      fmt_get_def py_bind_def example_metadata_def)

lemma summary_empty: "create_data_summary e [] = Inr []"
  by (simp add: create_data_summary_def block_of_def py_bind_def)

lemma embed_example: "create_embeddings example_env 4 example_snapshot = [2, 3 / 2, 1 / 2, 1 / 5]"
  by (simp add: create_embeddings_def extract_example pad_eq)

lemma embed_empty: "create_embeddings e 4 [] = [0, 0, 0, 0]"
  by (simp add: create_embeddings_def extract_features_def block_of_def py_bind_def pad_eq
      numeral_eq_Suc)

lemma metadata_example:
  "py_get (dict_get example_snapshot ''portfolio_summary'' (VDict [])) ''fund_name''
     (VStr ''Unknown'') = Inr (VStr ''Alpha Growth'')"
  "py_get (dict_get example_snapshot ''performance_summary'' (VDict [])) ''total_return''
     (VNum 0) = Inr (VNum (1 / 5))"
  "py_get (dict_get example_snapshot ''performance_summary'' (VDict [])) ''volatility''
     (VNum 0) = Inr (VNum (1 / 10))"
  "py_get (dict_get example_snapshot ''portfolio_summary'' (VDict [])) ''risk_level''
     (VStr ''Unknown'') = Inr (VStr ''Moderate'')"
  by (simp_all add: dict_get_def example_snapshot_def)

lemma now_example: "now_isoformat example_env = ''2024-01-01T00:00:00''"
  by (simp add: example_env_def)

lemma add_first_example:
  "add_portfolio_data example_env (init_store 4) example_snapshot (Some ''2023-12-31'') =
     Inr (\<lparr>dimension = 4,
           index = \<lparr>ix_d = 4, ix_vectors = [[2, 3 / 2, 1 / 2, 1 / 5]]\<rparr>,
           embeddings = [[2, 3 / 2, 1 / 2, 1 / 5]],
           metadata = [example_metadata],
           is_trained = True\<rparr>, 0)"
  by (simp add: add_portfolio_data_def init_store_def IndexFlatIP_def summary_example
      embed_example metadata_example py_bind_def index_add_def example_metadata_def Let_def)

lemma add_second_example:
  "add_portfolio_data example_env
     \<lparr>dimension = 4,
      index = \<lparr>ix_d = 4, ix_vectors = [[2, 3 / 2, 1 / 2, 1 / 5]]\<rparr>,
      embeddings = [[2, 3 / 2, 1 / 2, 1 / 5]],
      metadata = [example_metadata],
      is_trained = True\<rparr> [] None = Inr (example_store, 1)"
  by (simp add: add_portfolio_data_def summary_empty embed_empty now_example py_bind_def
      index_add_def dict_get_def example_store_def empty_metadata_def Let_def)

lemma add_all_example:
  "add_all example_env (init_store 4) example_items = Inr (example_store, [0, 1])"
  by (simp add: example_items_def add_first_example add_second_example py_bind_def)

text \<open>
  C9. Saving a store and loading the path into any store, a fresh one in particular,
  restores the index, the embeddings, the metadata, the dimension and the
  \<open>is_trained\<close> flag and returns \<open>True\<close>; loading a path with no index file leaves
  the store unchanged and returns \<open>False\<close>.
\<close>

theorem save_load_round_trip:
  "load_index s0 filepath (save_index s filepath fs) = (s, True) \<and>
   (fs (filepath @ ''.index'') = None \<longrightarrow> load_index s0 filepath fs = (s0, False))"
  by (simp add: load_index_def save_index_def)


theorem save_load_round_trip_witness:
  "load_index (init_store 384) ''snap'' (save_index example_store ''snap'' Map.empty) =
     (example_store, True) \<and>
   load_index example_store ''snap'' Map.empty = (example_store, False)"
  using save_load_round_trip [of "init_store 384" "''snap''" example_store Map.empty]
    save_load_round_trip [of example_store "''snap''" example_store Map.empty]
  by simp

lemma add_effect:
  assumes "add_portfolio_data e s snapshot ts = Inr (s1, vector_id)"
  shows "vector_id = length (embeddings s)"
    and "embeddings s1 = embeddings s @ [create_embeddings e (dimension s) snapshot]"
    and "\<exists>md. metadata s1 = metadata s @ [md]"
    and "ix_vectors (index s1) = ix_vectors (index s) @ [create_embeddings e (dimension s) snapshot]"
    and "ix_d (index s1) = ix_d (index s)"
    and "dimension s1 = dimension s"
    and "is_trained s1"
  using assms
  by (auto simp: add_portfolio_data_def py_bind_Inr index_add_def Let_def split: if_splits)

lemma add_store_ok:
  assumes "add_portfolio_data e s snapshot ts = Inr (s1, vector_id)" and "store_ok s"
  shows "store_ok s1"
  using add_effect [OF assms(1)] assms(2) by (auto simp: store_ok_def)


lemma add_all_effect:
  assumes "add_all e s items = Inr (s1, ids)"
  shows "ids = [length (embeddings s)..<length (embeddings s) + length items] \<and>
         embeddings s1 =
           embeddings s @ map (\<lambda>(snapshot, ts). create_embeddings e (dimension s) snapshot) items \<and>
         ix_vectors (index s1) =
           ix_vectors (index s) @
           map (\<lambda>(snapshot, ts). create_embeddings e (dimension s) snapshot) items \<and>
         length (metadata s1) = length (metadata s) + length items \<and>
         take (length (metadata s)) (metadata s1) = metadata s \<and>
         dimension s1 = dimension s \<and> (store_ok s \<longrightarrow> store_ok s1)"
  using assms
proof (induction items arbitrary: s ids)
  case Nil
  then show ?case by simp
next
  case (Cons item items)
  obtain snapshot ts where item: "item = (snapshot, ts)" by (cases item)
  from Cons.prems obtain s2 vid ids' where
    a: "add_portfolio_data e s snapshot ts = Inr (s2, vid)" and
    r: "add_all e s2 items = Inr (s1, ids')" and ids: "ids = vid # ids'"
    by (auto simp: item py_bind_Inr)
  note eff = add_effect [OF a]
  from eff(3) obtain md where md: "metadata s2 = metadata s @ [md]" by blast
  note ih = Cons.IH [OF r]
  have len2: "length (embeddings s2) = Suc (length (embeddings s))"
    using eff(2) by simp
  have "[length (embeddings s)..<length (embeddings s) + length (item # items)] =
      length (embeddings s) # [Suc (length (embeddings s))..<Suc (length (embeddings s)) + length items]"
    by (simp add: upt_conv_Cons del: upt_Suc)
  moreover have "ids' = [Suc (length (embeddings s))..<Suc (length (embeddings s)) + length items]"
    using ih len2 by (simp del: upt_Suc)
  ultimately have "ids = [length (embeddings s)..<length (embeddings s) + length (item # items)]"
    using eff(1) ids by (simp del: upt_Suc)
  moreover have "take (length (metadata s)) (metadata s1) = metadata s"
  proof -
    have "take (length (metadata s2)) (metadata s1) = metadata s2" using ih by simp
    then have "take (length (metadata s)) (take (length (metadata s2)) (metadata s1)) =
      take (length (metadata s)) (metadata s2)" by simp
    then show ?thesis by (simp add: md min_def)
  qed
  ultimately show ?case
    using ih eff add_store_ok [OF a] by (simp add: item md del: upt_Suc)
qed

subsection \<open>Search\<close>









subsection \<open>No stored vector is removed\<close>

lemma exec_grows:
  assumes "\<not> is_load op"
  shows "\<exists>new_embeddings new_metadata new_vectors.
     embeddings (fst (exec e (s, fs) op)) = embeddings s @ new_embeddings \<and>
     metadata (fst (exec e (s, fs) op)) = metadata s @ new_metadata \<and>
     ix_vectors (index (fst (exec e (s, fs) op))) = ix_vectors (index s) @ new_vectors"
proof (cases op)
  case (Add snapshot ts)
  show ?thesis
  proof (cases "add_portfolio_data e s snapshot ts")
    case (Inl err)
    with Add show ?thesis by simp
  next
    case (Inr r)
    obtain s1 vid where r: "r = (s1, vid)" by (cases r)
    from add_effect [OF Inr [unfolded r]] Add Inr r show ?thesis by auto
  qed
qed (use assms in simp_all)

lemma run_grows:
  assumes "\<forall>op \<in> set ops. \<not> is_load op"
  shows "\<exists>new_embeddings new_metadata new_vectors.
     embeddings (fst (run e (s, fs) ops)) = embeddings s @ new_embeddings \<and>
     metadata (fst (run e (s, fs) ops)) = metadata s @ new_metadata \<and>
     ix_vectors (index (fst (run e (s, fs) ops))) = ix_vectors (index s) @ new_vectors"
  using assms
proof (induction ops arbitrary: s fs)
  case Nil
  then show ?case by (simp add: run_def)
next
  case (Cons op ops)
  obtain s1 fs1 where step: "exec e (s, fs) op = (s1, fs1)" by (cases "exec e (s, fs) op")
  from Cons.prems have "\<not> is_load op" by simp
  from exec_grows [OF this, of e s fs] step obtain e1 m1 v1 where
    1: "embeddings s1 = embeddings s @ e1" "metadata s1 = metadata s @ m1"
       "ix_vectors (index s1) = ix_vectors (index s) @ v1"
    by auto
  from Cons.IH [of s1 fs1] Cons.prems obtain e2 m2 v2 where
    2: "embeddings (fst (run e (s1, fs1) ops)) = embeddings s1 @ e2"
       "metadata (fst (run e (s1, fs1) ops)) = metadata s1 @ m2"
       "ix_vectors (index (fst (run e (s1, fs1) ops))) = ix_vectors (index s1) @ v2"
    by auto
  have "run e (s, fs) (op # ops) = run e (s1, fs1) ops"
    by (simp add: run_def step)
  with 1 2 show ?case by simp
qed

text \<open>
  C7. The store never evicts. After \<open>n\<close> successful \<open>add_portfolio_data\<close> calls on an
  empty store the returned ids are \<open>0, ..., n - 1\<close> and the store holds exactly the
  \<open>n\<close> vectors, in insertion order, in the index and in the embeddings list, with \<open>n\<close>
  metadata records, and \<open>get_stats\<close> reports \<open>n\<close> for both; each successful add appends one vector and one metadata record and
  changes nothing stored before; and after any sequence of add, search,
  get\_context\_for\_query, get\_stats and save\_index calls everything stored before is
  still there, unchanged and at the same position.
\<close>

theorem store_never_evicts:
  "(add_all e (init_store dm) items = Inr (s, ids) \<longrightarrow>
      ids = [0..<length items] \<and>
      embeddings s = map (\<lambda>(snapshot, ts). create_embeddings e dm snapshot) items \<and>
      ix_vectors (index s) = embeddings s \<and>
      length (metadata s) = length items \<and>
      total_vectors (get_stats s) = length items \<and>
      index_size (get_stats s) = length items) \<and>
   (add_portfolio_data e s0 snapshot ts = Inr (s1, vector_id) \<longrightarrow>
      vector_id = length (embeddings s0) \<and>
      embeddings s1 = embeddings s0 @ [create_embeddings e (dimension s0) snapshot] \<and>
      (\<exists>md. metadata s1 = metadata s0 @ [md]) \<and>
      ix_vectors (index s1) =
        ix_vectors (index s0) @ [create_embeddings e (dimension s0) snapshot]) \<and>
   ((\<forall>op \<in> set ops. \<not> is_load op) \<longrightarrow>
      (\<exists>new_embeddings new_metadata new_vectors.
         embeddings (fst (run e (s0, fs) ops)) = embeddings s0 @ new_embeddings \<and>
         metadata (fst (run e (s0, fs) ops)) = metadata s0 @ new_metadata \<and>
         ix_vectors (index (fst (run e (s0, fs) ops))) = ix_vectors (index s0) @ new_vectors))"
proof (intro conjI impI)
  assume a: "add_all e (init_store dm) items = Inr (s, ids)"
  from add_all_effect [OF a]
  show "ids = [0..<length items]"
    "embeddings s = map (\<lambda>(snapshot, ts). create_embeddings e dm snapshot) items"
    "ix_vectors (index s) = embeddings s"
    "length (metadata s) = length items"
    "total_vectors (get_stats s) = length items"
    "index_size (get_stats s) = length items"
    by (simp_all add: init_store_def IndexFlatIP_def get_stats_def ntotal_def)
next
  assume a: "add_portfolio_data e s0 snapshot ts = Inr (s1, vector_id)"
  from add_effect [OF a]
  show "vector_id = length (embeddings s0)"
    "embeddings s1 = embeddings s0 @ [create_embeddings e (dimension s0) snapshot]"
    "\<exists>md. metadata s1 = metadata s0 @ [md]"
    "ix_vectors (index s1) = ix_vectors (index s0) @ [create_embeddings e (dimension s0) snapshot]"
    by simp_all
next
  assume "\<forall>op \<in> set ops. \<not> is_load op"
  then show "\<exists>new_embeddings new_metadata new_vectors.
         embeddings (fst (run e (s0, fs) ops)) = embeddings s0 @ new_embeddings \<and>
         metadata (fst (run e (s0, fs) ops)) = metadata s0 @ new_metadata \<and>
         ix_vectors (index (fst (run e (s0, fs) ops))) = ix_vectors (index s0) @ new_vectors"
    by (rule run_grows)
qed

theorem store_never_evicts_witness:
  "add_all example_env (init_store 4) example_items = Inr (example_store, [0, 1]) \<and>
   embeddings example_store =
     [create_embeddings example_env 4 example_snapshot, create_embeddings example_env 4 []] \<and>
   ix_vectors (index example_store) = embeddings example_store \<and>
   length (metadata example_store) = 2 \<and>
   (\<exists>new_embeddings.
      embeddings (fst (run example_env (example_store, Map.empty)
        [Search example_snapshot 3, GetStats, Add [] None, Save ''snap''])) =
      embeddings example_store @ new_embeddings)"
proof -
  have ops: "\<forall>op \<in> set [Search example_snapshot 3, GetStats, Add [] None, Save ''snap''].
      \<not> is_load op"
    by simp
  show ?thesis
    using store_never_evicts [of example_env 4 example_items example_store "[0, 1]"
        example_store "[]" None example_store 2
        "[Search example_snapshot 3, GetStats, Add [] None, Save ''snap'']" Map.empty]
      ops add_all_example
    by (auto simp: example_items_def)
qed

subsection \<open>Lockstep\<close>









subsection \<open>The k best\<close>

lemma sorted_wrt_take_drop:
  assumes "sorted_wrt R xs" and "x \<in> set (take n xs)" and "y \<in> set (drop n xs)"
  shows "R x y"
proof -
  have "sorted_wrt R (take n xs @ drop n xs)" using assms(1) by simp
  then show ?thesis using assms(2,3) unfolding sorted_wrt_append by blast
qed














section \<open>Aggregates of the data processor\<close>

subsection \<open>What a successful load went through\<close>

lemma to_datetime_Inr: "to_datetime c = Inr d \<longleftrightarrow> d = c \<and> (\<forall>s. c \<noteq> DateText s)"
  by (cases c) auto

lemma to_datetime_column_Inr:
  assumes "\<And>r. set_cell (get_cell r) r = r"
  shows "to_datetime_column get_cell set_cell rows = Inr rows' \<longleftrightarrow>
         rows' = rows \<and> (\<forall>r \<in> set rows. \<forall>s. get_cell r \<noteq> DateText s)"
proof (induction rows arbitrary: rows')
  case Nil
  then show ?case by (auto simp: to_datetime_column_def)
next
  case (Cons r rows)
  from Cons.IH show ?case
    unfolding to_datetime_column_def
    by (auto simp: py_bind_Inr to_datetime_Inr assms)
qed

lemma clean_series_lookup:
  assumes "clean_series names wb = Inr wb'" and "distinct names"
  shows "(n \<notin> set names \<longrightarrow> wb' n = wb n) \<and>
         (n \<in> set names \<longrightarrow>
            (wb n = None \<and> wb' n = None) \<or>
            (\<exists>rows. wb n = Some (Series rows) \<and>
               (\<forall>r \<in> set rows. \<forall>s. Date r \<noteq> DateText s) \<and>
               wb' n = Some (Series (sort_values_Date rows))))"
  using assms
proof (induction names arbitrary: wb)
  case Nil
  then show ?case by simp
next
  case (Cons a names)
  show ?case
  proof (cases "wb a")
    case None
    with Cons.prems have "clean_series names wb = Inr wb'" by simp
    from Cons.IH [OF this] Cons.prems(2) None show ?thesis by auto
  next
    case (Some sh)
    with Cons.prems obtain rows rows1 where sh: "sh = Series rows"
      and conv: "to_datetime_column Date (\<lambda>d r. r\<lparr>Date := d\<rparr>) rows = Inr rows1"
      and rest: "clean_series names (wb(a \<mapsto> Series (sort_values_Date rows1))) = Inr wb'"
      by (cases sh) (auto simp: py_bind_Inr)
    from conv have same: "rows1 = rows"
      and dated: "\<forall>r \<in> set rows. \<forall>s. Date r \<noteq> DateText s"
      by (simp_all add: to_datetime_column_Inr)
    from Cons.prems(2) have a: "a \<notin> set names" and d: "distinct names" by simp_all
    note ih = Cons.IH [OF rest d]
    show ?thesis
    proof (cases "n = a")
      case True
      with ih a have "wb' n = Some (Series (sort_values_Date rows))" by (simp add: same)
      with True Some sh dated show ?thesis by simp
    next
      case False
      with ih show ?thesis by simp
    qed
  qed
qed

lemma clean_data_lookup:
  assumes "clean_data wb = Inr wb'"
  shows "wb ''Holdings_Detail'' = Some sh \<longrightarrow>
           (\<exists>raw. sh = Holdings raw \<and> wb' ''Holdings_Detail'' = Some (Holdings (map clean_holding raw)))"
    and "n \<in> set time_series_sheets \<longrightarrow> wb n = Some sh \<longrightarrow>
           (\<exists>raw. sh = Series raw \<and> (\<forall>r \<in> set raw. \<forall>s. Date r \<noteq> DateText s) \<and>
              wb' n = Some (Series (sort_values_Date raw)))"
proof -
  from assms obtain wb1 wb2 where
    1: "clean_overview wb = Inr wb1" and 2: "clean_holdings wb1 = Inr wb2" and
    3: "clean_series time_series_sheets wb2 = Inr wb'"
    by (auto simp: clean_data_def py_bind_Inr)
  have d: "distinct time_series_sheets" by (simp add: time_series_sheets_def)
  have o: "wb1 k = wb k" if "k \<noteq> ''Portfolio_Overview''" for k
    using 1 that
    by (auto simp: clean_overview_def py_bind_Inr split: option.splits sheet.splits)
  have h: "wb2 k = wb1 k" if "k \<noteq> ''Holdings_Detail''" for k
    using 2 that
    by (auto simp: clean_holdings_def py_bind_Inr split: option.splits sheet.splits)
  have hd: "''Holdings_Detail'' \<notin> set time_series_sheets"
    by (simp add: time_series_sheets_def)
  show "wb ''Holdings_Detail'' = Some sh \<longrightarrow>
           (\<exists>raw. sh = Holdings raw \<and> wb' ''Holdings_Detail'' = Some (Holdings (map clean_holding raw)))"
  proof
    assume "wb ''Holdings_Detail'' = Some sh"
    then have "wb1 ''Holdings_Detail'' = Some sh" by (simp add: o)
    with 2 obtain raw where "sh = Holdings raw"
      "wb2 ''Holdings_Detail'' = Some (Holdings (map clean_holding raw))"
      by (cases sh) (auto simp: clean_holdings_def py_bind_Inr to_datetime_column_Inr)
    moreover have "wb' ''Holdings_Detail'' = wb2 ''Holdings_Detail''"
      using clean_series_lookup [OF 3 d, of "''Holdings_Detail''"] hd by simp
    ultimately show "\<exists>raw. sh = Holdings raw \<and>
        wb' ''Holdings_Detail'' = Some (Holdings (map clean_holding raw))"
      by simp
  qed
  show "n \<in> set time_series_sheets \<longrightarrow> wb n = Some sh \<longrightarrow>
           (\<exists>raw. sh = Series raw \<and> (\<forall>r \<in> set raw. \<forall>s. Date r \<noteq> DateText s) \<and>
              wb' n = Some (Series (sort_values_Date raw)))"
  proof (intro impI)
    assume n: "n \<in> set time_series_sheets" and sh: "wb n = Some sh"
    from n have "n \<noteq> ''Portfolio_Overview''" "n \<noteq> ''Holdings_Detail''"
      by (auto simp: time_series_sheets_def)
    then have "wb2 n = Some sh" using sh by (simp add: o h)
    with clean_series_lookup [OF 3 d, of n] n
    show "\<exists>raw. sh = Series raw \<and> (\<forall>r \<in> set raw. \<forall>s. Date r \<noteq> DateText s) \<and>
        wb' n = Some (Series (sort_values_Date raw))"
      by auto
  qed
qed

lemma load_excel_file_stages:
  assumes "load_excel_file excel_data = Inr p"
  shows "\<forall>n \<in> set expected_sheets. excel_data n \<noteq> None"
    and "clean_data excel_data = Inr (data p)"
    and "calculate_metrics (data p) = Inr (processed_data p)"
  using assms
  by (auto simp: load_excel_file_def py_bind_Inr validate_sheets_ok)

lemma calculate_metrics_parts:
  assumes "calculate_metrics wb = Inr m"
  shows "summarise_top_holdings wb = Inr (p_top_holdings m)"
    and "summarise_sectors wb = Inr (p_sector_allocation m)"
    and "summarise_latest wb ''Historical_Performance'' performance_of_row =
           Inr (p_performance_summary m)"
    and "summarise_latest wb ''Risk_Metrics'' risk_of_row = Inr (p_risk_summary m)"
  using assms by (auto simp: calculate_metrics_def py_bind_Inr)

lemma clean_holding_fields:
  "Asset_Name (clean_holding h) = Asset_Name h"
  "Ticker_Symbol (clean_holding h) = Ticker_Symbol h"
  "Sector (clean_holding h) = Sector h"
  "Market_Value (clean_holding h) =
     (case Market_Value h of Num r \<Rightarrow> Num r | NumText r \<Rightarrow> Num r | Text s \<Rightarrow> NaN | NaN \<Rightarrow> NaN)"
  "Weight_Percent (clean_holding h) =
     (case Weight_Percent h of Num r \<Rightarrow> Num r | NumText r \<Rightarrow> Num r | Text s \<Rightarrow> NaN | NaN \<Rightarrow> NaN)"
  by (simp_all add: clean_holding_def split: cell.splits)

subsection \<open>The largest holdings\<close>

lemma mset_by_market_value: "mset (by_market_value hs) = mset hs"
  by (simp add: by_market_value_def)

lemma length_by_market_value: "length (by_market_value hs) = length hs"
  using mset_by_market_value [of hs] by (metis size_mset)

lemma has_value_Num: "has_value h \<longleftrightarrow> (\<exists>r. Market_Value h = Num r)"
  by (cases "Market_Value h") (simp_all add: has_value_def)

lemma value_le_missing: "\<forall>r. c \<noteq> Num r \<Longrightarrow> value_le c c'"
  by (cases c; cases c') auto

lemma by_market_value_descending:
  "sorted_wrt (\<lambda>a b. value_le (Market_Value b) (Market_Value a)) (by_market_value hs)"
proof -
  let ?R = "\<lambda>a b. value_le (Market_Value b) (Market_Value a)"
  let ?A = "sort_key (\<lambda>h. - market_value h) (filter has_value hs)"
  let ?B = "filter (\<lambda>h. \<not> has_value h) hs"
  have "sorted (map (\<lambda>h. - market_value h) ?A)" by (rule sorted_sort_key)
  then have "sorted_wrt (\<lambda>a b. market_value b \<le> market_value a) ?A"
    by (simp add: sorted_map)
  moreover have "\<forall>h \<in> set ?A. has_value h" by simp
  ultimately have A: "sorted_wrt ?R ?A"
  proof (rule_tac sorted_wrt_mono_rel [where P = "\<lambda>a b. market_value b \<le> market_value a"])
    fix x y
    assume "x \<in> set ?A" "y \<in> set ?A" and le: "market_value y \<le> market_value x"
    then have "has_value x" "has_value y" by simp_all
    with le show "?R x y"
      by (auto simp: market_value_def has_value_Num)
  qed
  have nan: "?R a b" if "b \<in> set ?B" for a b :: holding
    using that by (auto simp: has_value_Num intro: value_le_missing)
  have B: "sorted_wrt ?R ?B"
    by (rule sorted_wrt_mono_rel [of _ "\<lambda>a b. True"]) (auto simp: nan)
  show ?thesis
    unfolding by_market_value_def sorted_wrt_append using A B nan by blast
qed

lemma nlargest_properties:
  assumes "nlargest n hs = Inr tops"
  shows "tops = take n (by_market_value hs)"
    and "length tops = min n (length hs)"
    and "mset tops \<subseteq># mset hs"
    and "\<forall>t \<in> set tops. \<forall>h \<in># mset hs - mset tops. value_le (Market_Value h) (Market_Value t)"
    and "sorted_wrt (\<lambda>a b. value_le (Market_Value b) (Market_Value a)) tops"
proof -
  show tops_eq: "tops = take n (by_market_value hs)"
    using assms by (auto simp: nlargest_def split: if_splits)
  show "length tops = min n (length hs)"
    by (simp add: tops_eq length_by_market_value min.commute)
  have split: "mset hs = mset tops + mset (drop n (by_market_value hs))"
    unfolding tops_eq by (metis append_take_drop_id mset_append mset_by_market_value)
  then show "mset tops \<subseteq># mset hs" by simp
  from split have rest: "mset hs - mset tops = mset (drop n (by_market_value hs))" by simp
  show "\<forall>t \<in> set tops. \<forall>h \<in># mset hs - mset tops. value_le (Market_Value h) (Market_Value t)"
    unfolding rest using sorted_wrt_take_drop [OF by_market_value_descending]
    by (auto simp: tops_eq)
  show "sorted_wrt (\<lambda>a b. value_le (Market_Value b) (Market_Value a)) tops"
    unfolding tops_eq by (rule sorted_wrt_take [OF by_market_value_descending])
qed

subsection \<open>Sector sums\<close>

lemma cell_value_case:
  "(case cell_value c of None \<Rightarrow> 0 | Some r \<Rightarrow> r) =
   (case c of Num r \<Rightarrow> r | NumText r \<Rightarrow> 0 | Text s \<Rightarrow> 0 | NaN \<Rightarrow> (0 :: real))"
  by (cases c) simp_all

lemma sector_sum_eq:
  "sector_sum hs s =
     (\<Sum>h\<leftarrow>filter (\<lambda>h. Sector h = s) hs.
        case Market_Value h of Num r \<Rightarrow> r | NumText r \<Rightarrow> 0 | Text s \<Rightarrow> 0 | NaN \<Rightarrow> 0)"
  by (simp add: sector_sum_def column_sum_def comp_def cell_value_case)

lemma group_sectors_lookup:
  "distinct (map fst (group_sectors hs)) \<and>
   map_of (group_sectors hs) s =
     (if s \<in> Sector ` set hs then Some (sector_sum hs s) else None)"
proof -
  let ?xs = "map (\<lambda>s. (s, sector_sum hs s)) (remdups (map Sector hs))"
  have keys: "map fst ?xs = remdups (map Sector hs)" by (simp add: comp_def)
  have "mset (group_sectors hs) = mset ?xs"
    by (simp add: group_sectors_def)
  then have "mset (map fst (group_sectors hs)) = mset (map fst ?xs)"
    by (metis mset_map)
  then have d: "distinct (map fst (group_sectors hs))"
    by (metis keys distinct_remdups mset_eq_imp_distinct_iff)
  have set: "set (group_sectors hs) = set ?xs" by (simp add: group_sectors_def)
  show ?thesis
  proof (cases "s \<in> Sector ` set hs")
    case True
    then have "(s, sector_sum hs s) \<in> set (group_sectors hs)"
      unfolding set by auto
    with d True show ?thesis by simp
  next
    case False
    then have "s \<notin> fst ` set (group_sectors hs)"
      unfolding set by force
    with d False show ?thesis by (simp add: map_of_eq_None_iff)
  qed
qed

lemma group_sectors_descending: "sorted_wrt (\<ge>) (map snd (group_sectors hs))"
proof -
  have "sorted (map (\<lambda>(s, v). - v) (group_sectors hs))"
    unfolding group_sectors_def by (rule sorted_sort_key)
  then have "sorted_wrt (\<lambda>a b. snd b \<le> snd a) (group_sectors hs)"
    by (simp add: sorted_map case_prod_unfold)
  then show ?thesis by (simp add: sorted_wrt_map)
qed

text \<open>
  C4. After a successful load the Holdings\_Detail sheet is kept row by row, with the
  names and the sector of each row and with \<open>Market_Value\<close> and \<open>Weight_Percent\<close> read
  as numbers (what does not read as a number is missing). The \<open>top_holdings\<close> aggregate
  holds one record for each of the 10 rows of that sheet with the largest
  \<open>Market_Value\<close> (all rows when the sheet has fewer than 10), by descending value, no
  row left out having a larger value than a row taken; each record carries the row's
  \<open>Asset_Name\<close>, \<open>Ticker_Symbol\<close>, \<open>Market_Value\<close>, \<open>Weight_Percent\<close> and \<open>Sector\<close>.
  The \<open>sector_allocation\<close> aggregate maps each sector of the sheet, and nothing else,
  to the sum of the \<open>Market_Value\<close> of its rows. A missing value is lowest in the
  ranking and adds nothing to the sum.
\<close>

theorem top_holdings_and_sector_allocation:
  assumes "load_excel_file excel_data = Inr p"
  shows "\<exists>raw holdings tops allocation.
     excel_data ''Holdings_Detail'' = Some (Holdings raw) \<and>
     holdings = map clean_holding raw \<and>
     data p ''Holdings_Detail'' = Some (Holdings holdings) \<and>
     length holdings = length raw \<and>
     (\<forall>i < length raw.
        Asset_Name (holdings ! i) = Asset_Name (raw ! i) \<and>
        Ticker_Symbol (holdings ! i) = Ticker_Symbol (raw ! i) \<and>
        Sector (holdings ! i) = Sector (raw ! i) \<and>
        Market_Value (holdings ! i) =
          (case Market_Value (raw ! i) of
             Num r \<Rightarrow> Num r | NumText r \<Rightarrow> Num r | Text s \<Rightarrow> NaN | NaN \<Rightarrow> NaN) \<and>
        Weight_Percent (holdings ! i) =
          (case Weight_Percent (raw ! i) of
             Num r \<Rightarrow> Num r | NumText r \<Rightarrow> Num r | Text s \<Rightarrow> NaN | NaN \<Rightarrow> NaN)) \<and>
     p_top_holdings (processed_data p) =
       Some (map (\<lambda>t. [(''Asset_Name'', StrV (Asset_Name t)),
                       (''Ticker_Symbol'', StrV (Ticker_Symbol t)),
                       (''Market_Value'', CellV (Market_Value t)),
                       (''Weight_Percent'', CellV (Weight_Percent t)),
                       (''Sector'', StrV (Sector t))]) tops) \<and>
     length tops = min 10 (length holdings) \<and>
     mset tops \<subseteq># mset holdings \<and>
     (\<forall>t \<in> set tops. \<forall>h \<in># mset holdings - mset tops.
        value_le (Market_Value h) (Market_Value t)) \<and>
     sorted_wrt (\<lambda>a b. value_le (Market_Value b) (Market_Value a)) tops \<and>
     p_sector_allocation (processed_data p) = Some allocation \<and>
     distinct (map fst allocation) \<and>
     sorted_wrt (\<ge>) (map snd allocation) \<and>
     (\<forall>s. map_of allocation s =
        (if s \<in> Sector ` set holdings
         then Some (\<Sum>h\<leftarrow>filter (\<lambda>h. Sector h = s) holdings.
                      case Market_Value h of
                        Num r \<Rightarrow> r | NumText r \<Rightarrow> 0 | Text s \<Rightarrow> 0 | NaN \<Rightarrow> 0)
         else None))"
proof -
  note st = load_excel_file_stages [OF assms]
  have "''Holdings_Detail'' \<in> set expected_sheets" by (simp add: expected_sheets_def)
  with st(1) obtain sh where sh: "excel_data ''Holdings_Detail'' = Some sh" by auto
  from clean_data_lookup(1) [OF st(2), of sh] sh obtain raw where
    raw: "sh = Holdings raw" and
    cleaned: "data p ''Holdings_Detail'' = Some (Holdings (map clean_holding raw))"
    by auto
  define holdings where "holdings = map clean_holding raw"
  note parts = calculate_metrics_parts [OF st(3)]
  from parts(1) cleaned obtain tops where
    tops: "nlargest 10 holdings = Inr tops" and
    th: "p_top_holdings (processed_data p) = Some (map holding_record tops)"
    by (auto simp: summarise_top_holdings_def py_bind_Inr holdings_def)
  from parts(2) cleaned have
    alloc: "p_sector_allocation (processed_data p) = Some (group_sectors holdings)"
    by (auto simp: summarise_sectors_def holdings_def split: if_splits)
  note nl = nlargest_properties [OF tops]
  note gs = group_sectors_lookup [of holdings]
  have f1: "excel_data ''Holdings_Detail'' = Some (Holdings raw)" by (simp add: sh raw)
  have f2: "holdings = map clean_holding raw" by (rule holdings_def)
  have f3: "data p ''Holdings_Detail'' = Some (Holdings holdings)"
    by (simp add: cleaned holdings_def)
  have f4: "length holdings = length raw" by (simp add: holdings_def)
  have f5: "\<forall>i < length raw.
        Asset_Name (holdings ! i) = Asset_Name (raw ! i) \<and>
        Ticker_Symbol (holdings ! i) = Ticker_Symbol (raw ! i) \<and>
        Sector (holdings ! i) = Sector (raw ! i) \<and>
        Market_Value (holdings ! i) =
          (case Market_Value (raw ! i) of
             Num r \<Rightarrow> Num r | NumText r \<Rightarrow> Num r | Text s \<Rightarrow> NaN | NaN \<Rightarrow> NaN) \<and>
        Weight_Percent (holdings ! i) =
          (case Weight_Percent (raw ! i) of
             Num r \<Rightarrow> Num r | NumText r \<Rightarrow> Num r | Text s \<Rightarrow> NaN | NaN \<Rightarrow> NaN)"
    by (simp add: holdings_def clean_holding_fields)
  have f6: "p_top_holdings (processed_data p) =
       Some (map (\<lambda>t. [(''Asset_Name'', StrV (Asset_Name t)),
                       (''Ticker_Symbol'', StrV (Ticker_Symbol t)),
                       (''Market_Value'', CellV (Market_Value t)),
                       (''Weight_Percent'', CellV (Weight_Percent t)),
                       (''Sector'', StrV (Sector t))]) tops)"
    unfolding th by (simp add: holding_record_def)
  have f10: "distinct (map fst (group_sectors holdings))" using gs by simp
  have f11: "sorted_wrt (\<ge>) (map snd (group_sectors holdings))"
    by (rule group_sectors_descending)
  have f12: "\<forall>s. map_of (group_sectors holdings) s =
        (if s \<in> Sector ` set holdings
         then Some (\<Sum>h\<leftarrow>filter (\<lambda>h. Sector h = s) holdings.
                      case Market_Value h of
                        Num r \<Rightarrow> r | NumText r \<Rightarrow> 0 | Text s \<Rightarrow> 0 | NaN \<Rightarrow> 0)
         else None)"
    using group_sectors_lookup [of holdings] by (simp add: sector_sum_eq)
  show ?thesis
    apply (rule exI [of _ raw])
    apply (rule exI [of _ holdings])
    apply (rule exI [of _ tops])
    apply (rule exI [of _ "group_sectors holdings"])
    apply (intro conjI)
                 apply (rule f1)
                apply (rule f2)
               apply (rule f3)
              apply (rule f4)
             apply (rule f5)
            apply (rule f6)
           apply (rule nl(2))
          apply (rule nl(3))
         apply (rule nl(4))
        apply (rule nl(5))
       apply (rule alloc)
      apply (rule f10)
     apply (rule f11)
    apply (rule f12)
    done
qed

subsection \<open>The latest rows\<close>

lemma is_date_iff: "is_date c \<longleftrightarrow> (\<exists>t. c = DateAt t)"
  by (cases c) simp_all

lemma date_le_undated: "\<not> is_date c' \<Longrightarrow> date_le c c'"
  by (cases c; cases c') simp_all

lemma date_le_refl: "date_le c c"
  by (cases c) simp_all

lemma mset_sort_values_Date: "mset (sort_values_Date rows) = mset rows"
  by (simp add: sort_values_Date_def)

lemma set_sort_values_Date: "set (sort_values_Date rows) = set rows"
  using mset_sort_values_Date [of rows] by (metis set_mset_mset)

lemma sort_values_Date_ascending:
  "sorted_wrt (\<lambda>a b. date_le (Date a) (Date b)) (sort_values_Date rows)"
proof -
  let ?R = "\<lambda>a b. date_le (Date a) (Date b)"
  let ?A = "sort_key (\<lambda>r. date_value (Date r)) (filter (\<lambda>r. is_date (Date r)) rows)"
  let ?B = "filter (\<lambda>r. \<not> is_date (Date r)) rows"
  have "sorted (map (\<lambda>r. date_value (Date r)) ?A)" by (rule sorted_sort_key)
  then have "sorted_wrt (\<lambda>a b. date_value (Date a) \<le> date_value (Date b)) ?A"
    by (simp add: sorted_map)
  moreover have "\<forall>r \<in> set ?A. is_date (Date r)" by simp
  ultimately have A: "sorted_wrt ?R ?A"
  proof (rule_tac sorted_wrt_mono_rel
      [where P = "\<lambda>a b. date_value (Date a) \<le> date_value (Date b)"])
    fix x y
    assume "x \<in> set ?A" "y \<in> set ?A" and le: "date_value (Date x) \<le> date_value (Date y)"
    then have "is_date (Date x)" "is_date (Date y)" by simp_all
    with le show "?R x y"
      by (auto simp: is_date_iff)
  qed
  have undated: "?R a b" if "b \<in> set ?B" for a b :: series_row
    using that by (simp add: date_le_undated)
  have B: "sorted_wrt ?R ?B"
    by (rule sorted_wrt_mono_rel [of _ "\<lambda>a b. True"]) (auto simp: undated)
  show ?thesis
    unfolding sort_values_Date_def sorted_wrt_append using A B undated by blast
qed

lemma last_sort_values_Date:
  assumes "rows \<noteq> []"
  shows "sort_values_Date rows \<noteq> []"
    and "last (sort_values_Date rows) \<in> set rows"
    and "\<forall>r \<in> set rows. date_le (Date r) (Date (last (sort_values_Date rows)))"
proof -
  define L where "L = sort_values_Date rows"
  have set: "set L = set rows" by (simp add: L_def set_sort_values_Date)
  with assms show ne: "sort_values_Date rows \<noteq> []" by (auto simp: L_def)
  then have ne': "L \<noteq> []" by (simp add: L_def)
  then have "last L \<in> set L" by simp
  then show "last (sort_values_Date rows) \<in> set rows" by (simp add: set flip: L_def)
  have "sorted_wrt (\<lambda>a b. date_le (Date a) (Date b)) (butlast L @ [last L])"
    using ne' sort_values_Date_ascending [of rows] by (simp add: L_def)
  then have "\<forall>x \<in> set (butlast L). date_le (Date x) (Date (last L))"
    unfolding sorted_wrt_append by simp
  moreover have "set L = set (butlast L) \<union> {last L}"
    using ne' by (metis append_butlast_last_id list.set(1) list.simps(15) set_append Un_commute
        insert_is_Un)
  ultimately have "\<forall>x \<in> set L. date_le (Date x) (Date (last L))"
    by (auto simp: date_le_refl)
  then show "\<forall>r \<in> set rows. date_le (Date r) (Date (last (sort_values_Date rows)))"
    by (simp add: set flip: L_def)
qed

lemma latest_when_dated:
  assumes "latest \<in> set raw" and "\<forall>r \<in> set raw. date_le (Date r) (Date latest)"
  shows "(\<forall>r \<in> set raw. \<exists>t. Date r = DateAt t) \<longrightarrow>
         (\<exists>t. Date latest = DateAt t \<and> (\<forall>r \<in> set raw. \<exists>t'. Date r = DateAt t' \<and> t' \<le> t))"
proof
  assume all: "\<forall>r \<in> set raw. \<exists>t. Date r = DateAt t"
  with assms(1) obtain t where t: "Date latest = DateAt t" by blast
  have "\<exists>t'. Date r = DateAt t' \<and> t' \<le> t" if "r \<in> set raw" for r
  proof -
    from all that obtain t' where t': "Date r = DateAt t'" by blast
    from assms(2) that have "date_le (Date r) (Date latest)" by blast
    with t t' show ?thesis by simp
  qed
  with t show "\<exists>t. Date latest = DateAt t \<and> (\<forall>r \<in> set raw. \<exists>t'. Date r = DateAt t' \<and> t' \<le> t)"
    by blast
qed

lemma latest_when_undated:
  assumes "latest \<in> set raw" and "\<forall>r \<in> set raw. date_le (Date r) (Date latest)"
    and "\<forall>r \<in> set raw. \<forall>s. Date r \<noteq> DateText s"
  shows "(\<exists>r \<in> set raw. Date r = NaT) \<longrightarrow> Date latest = NaT"
proof
  assume "\<exists>r \<in> set raw. Date r = NaT"
  then obtain r where "r \<in> set raw" "Date r = NaT" by blast
  with assms(2) have "date_le NaT (Date latest)" by force
  moreover from assms(1,3) have "\<forall>s. Date latest \<noteq> DateText s" by blast
  ultimately show "Date latest = NaT" by (cases "Date latest") simp_all
qed

lemma summarise_latest_sorted:
  assumes "summarise_latest wb name of_row = Inr result"
    and "wb name = Some (Series (sort_values_Date raw))"
  shows "\<exists>latest summary.
     sort_values_Date raw \<noteq> [] \<and>
     latest = last (sort_values_Date raw) \<and> latest \<in> set raw \<and>
     (\<forall>r \<in> set raw. date_le (Date r) (Date latest)) \<and>
     of_row latest = Inr summary \<and> result = Some summary"
proof -
  from assms have ne: "sort_values_Date raw \<noteq> []"
    by (auto simp: summarise_latest_def iloc_last_def py_bind_def)
  then have raw: "raw \<noteq> []" by (auto simp: sort_values_Date_def)
  from assms ne obtain summary where
    "of_row (last (sort_values_Date raw)) = Inr summary" "result = Some summary"
    by (auto simp: summarise_latest_def iloc_last_def py_bind_Inr)
  with last_sort_values_Date [OF raw] show ?thesis by blast
qed

lemma col_Inr: "col r c = Inr v \<longleftrightarrow> nums r c = Some v"
  by (simp add: col_def split: option.splits)

lemma performance_of_row_reads:
  assumes "performance_of_row r = Inr summary"
  shows "nums r ''Portfolio_Value'' = Some (current_value summary)"
    and "nums r ''Cumulative_Return'' = Some (total_return summary)"
    and "nums r ''Daily_Return'' = Some (daily_return summary)"
    and "nums r ''Volatility'' = Some (volatility summary)"
    and "nums r ''Sharpe_Ratio'' = Some (sharpe_ratio summary)"
    and "nums r ''Max_Drawdown'' = Some (max_drawdown summary)"
    and "nums r ''Active_Return'' = Some (active_return summary)"
  using assms by (auto simp: performance_of_row_def py_bind_Inr col_Inr)

lemma risk_of_row_reads:
  assumes "risk_of_row r = Inr summary"
  shows "nums r ''Portfolio_Beta'' = Some (portfolio_beta summary)"
    and "nums r ''VaR_95'' = Some (var_95 summary)"
    and "nums r ''CVaR_95'' = Some (cvar_95 summary)"
    and "nums r ''Tracking_Error'' = Some (tracking_error summary)"
    and "nums r ''Correlation_Benchmark'' = Some (correlation_benchmark summary)"
    and "nums r ''Concentration_Risk'' = Some (concentration_risk summary)"
    and "nums r ''Liquidity_Score'' = Some (liquidity_score summary)"
  using assms by (auto simp: risk_of_row_def py_bind_Inr col_Inr)

text \<open>
  C5 (amended). After a successful load no \<open>Date\<close> cell of a time-series sheet is a text
  that is not a date, and each of the five time-series sheets is stored as its rows
  sorted ascending by \<open>Date\<close>, the rows without a date last. The \<open>performance_summary\<close>
  and \<open>risk_summary\<close> aggregates are the seven columns each, as named, of the last row
  of the sorted Historical\_Performance and Risk\_Metrics sheets. That row is a row of the
  sheet that no other row follows in the order; it carries the latest date when every
  row of the sheet has a date, and it has no date when some row of the sheet has none.
\<close>

theorem summaries_from_latest_rows:
  assumes "load_excel_file excel_data = Inr p"
  shows "(\<forall>name \<in> set time_series_sheets. \<exists>raw sorted_rows.
       excel_data name = Some (Series raw) \<and>
       data p name = Some (Series sorted_rows) \<and>
       (\<forall>r \<in> set raw. \<forall>s. Date r \<noteq> DateText s) \<and>
       mset sorted_rows = mset raw \<and>
       sorted_wrt (\<lambda>a b. date_le (Date a) (Date b)) sorted_rows) \<and>
    (\<exists>raw sorted_rows latest summary.
       excel_data ''Historical_Performance'' = Some (Series raw) \<and>
       data p ''Historical_Performance'' = Some (Series sorted_rows) \<and>
       sorted_rows \<noteq> [] \<and> latest = last sorted_rows \<and> latest \<in> set raw \<and>
       (\<forall>r \<in> set raw. date_le (Date r) (Date latest)) \<and>
       ((\<forall>r \<in> set raw. \<exists>t. Date r = DateAt t) \<longrightarrow>
          (\<exists>t. Date latest = DateAt t \<and> (\<forall>r \<in> set raw. \<exists>t'. Date r = DateAt t' \<and> t' \<le> t))) \<and>
       ((\<exists>r \<in> set raw. Date r = NaT) \<longrightarrow> Date latest = NaT) \<and>
       p_performance_summary (processed_data p) = Some summary \<and>
       nums latest ''Portfolio_Value'' = Some (current_value summary) \<and>
       nums latest ''Cumulative_Return'' = Some (total_return summary) \<and>
       nums latest ''Daily_Return'' = Some (daily_return summary) \<and>
       nums latest ''Volatility'' = Some (volatility summary) \<and>
       nums latest ''Sharpe_Ratio'' = Some (sharpe_ratio summary) \<and>
       nums latest ''Max_Drawdown'' = Some (max_drawdown summary) \<and>
       nums latest ''Active_Return'' = Some (active_return summary)) \<and>
    (\<exists>raw sorted_rows latest summary.
       excel_data ''Risk_Metrics'' = Some (Series raw) \<and>
       data p ''Risk_Metrics'' = Some (Series sorted_rows) \<and>
       sorted_rows \<noteq> [] \<and> latest = last sorted_rows \<and> latest \<in> set raw \<and>
       (\<forall>r \<in> set raw. date_le (Date r) (Date latest)) \<and>
       ((\<forall>r \<in> set raw. \<exists>t. Date r = DateAt t) \<longrightarrow>
          (\<exists>t. Date latest = DateAt t \<and> (\<forall>r \<in> set raw. \<exists>t'. Date r = DateAt t' \<and> t' \<le> t))) \<and>
       ((\<exists>r \<in> set raw. Date r = NaT) \<longrightarrow> Date latest = NaT) \<and>
       p_risk_summary (processed_data p) = Some summary \<and>
       nums latest ''Portfolio_Beta'' = Some (portfolio_beta summary) \<and>
       nums latest ''VaR_95'' = Some (var_95 summary) \<and>
       nums latest ''CVaR_95'' = Some (cvar_95 summary) \<and>
       nums latest ''Tracking_Error'' = Some (tracking_error summary) \<and>
       nums latest ''Correlation_Benchmark'' = Some (correlation_benchmark summary) \<and>
       nums latest ''Concentration_Risk'' = Some (concentration_risk summary) \<and>
       nums latest ''Liquidity_Score'' = Some (liquidity_score summary))"
proof -
  note st = load_excel_file_stages [OF assms]
  have sub: "set time_series_sheets \<subseteq> set expected_sheets"
    by (auto simp: time_series_sheets_def expected_sheets_def)
  have sheet: "\<exists>raw. excel_data name = Some (Series raw) \<and>
       (\<forall>r \<in> set raw. \<forall>s. Date r \<noteq> DateText s) \<and>
       data p name = Some (Series (sort_values_Date raw))"
    if "name \<in> set time_series_sheets" for name
  proof -
    from that sub st(1) obtain sh where "excel_data name = Some sh" by auto
    with clean_data_lookup(2) [OF st(2), of name sh] that show ?thesis by auto
  qed
  note parts = calculate_metrics_parts [OF st(3)]
  have 1: "\<forall>name \<in> set time_series_sheets. \<exists>raw sorted_rows.
       excel_data name = Some (Series raw) \<and>
       data p name = Some (Series sorted_rows) \<and>
       (\<forall>r \<in> set raw. \<forall>s. Date r \<noteq> DateText s) \<and>
       mset sorted_rows = mset raw \<and>
       sorted_wrt (\<lambda>a b. date_le (Date a) (Date b)) sorted_rows"
  proof
    fix name assume "name \<in> set time_series_sheets"
    from sheet [OF this] obtain raw where
      "excel_data name = Some (Series raw)" "\<forall>r \<in> set raw. \<forall>s. Date r \<noteq> DateText s"
      "data p name = Some (Series (sort_values_Date raw))"
      by blast
    with mset_sort_values_Date [of raw] sort_values_Date_ascending [of raw]
    show "\<exists>raw sorted_rows.
       excel_data name = Some (Series raw) \<and>
       data p name = Some (Series sorted_rows) \<and>
       (\<forall>r \<in> set raw. \<forall>s. Date r \<noteq> DateText s) \<and>
       mset sorted_rows = mset raw \<and>
       sorted_wrt (\<lambda>a b. date_le (Date a) (Date b)) sorted_rows"
      by blast
  qed
  have "''Historical_Performance'' \<in> set time_series_sheets"
    by (simp add: time_series_sheets_def)
  from sheet [OF this] obtain raw1 where
    a1: "excel_data ''Historical_Performance'' = Some (Series raw1)" and
    b1: "\<forall>r \<in> set raw1. \<forall>s. Date r \<noteq> DateText s" and
    c1: "data p ''Historical_Performance'' = Some (Series (sort_values_Date raw1))"
    by blast
  from summarise_latest_sorted [OF parts(3) c1] obtain latest1 summary1 where
    d1: "sort_values_Date raw1 \<noteq> []" and
    e1: "latest1 = last (sort_values_Date raw1)" and
    f1: "latest1 \<in> set raw1" and
    g1: "\<forall>r \<in> set raw1. date_le (Date r) (Date latest1)" and
    h1: "performance_of_row latest1 = Inr summary1" and
    i1: "p_performance_summary (processed_data p) = Some summary1"
    by blast
  note j1 = latest_when_dated [OF f1 g1]
  note k1 = latest_when_undated [OF f1 g1 b1]
  note l1 = performance_of_row_reads [OF h1]
  have 2: "\<exists>raw sorted_rows latest summary.
       excel_data ''Historical_Performance'' = Some (Series raw) \<and>
       data p ''Historical_Performance'' = Some (Series sorted_rows) \<and>
       sorted_rows \<noteq> [] \<and> latest = last sorted_rows \<and> latest \<in> set raw \<and>
       (\<forall>r \<in> set raw. date_le (Date r) (Date latest)) \<and>
       ((\<forall>r \<in> set raw. \<exists>t. Date r = DateAt t) \<longrightarrow>
          (\<exists>t. Date latest = DateAt t \<and> (\<forall>r \<in> set raw. \<exists>t'. Date r = DateAt t' \<and> t' \<le> t))) \<and>
       ((\<exists>r \<in> set raw. Date r = NaT) \<longrightarrow> Date latest = NaT) \<and>
       p_performance_summary (processed_data p) = Some summary \<and>
       nums latest ''Portfolio_Value'' = Some (current_value summary) \<and>
       nums latest ''Cumulative_Return'' = Some (total_return summary) \<and>
       nums latest ''Daily_Return'' = Some (daily_return summary) \<and>
       nums latest ''Volatility'' = Some (volatility summary) \<and>
       nums latest ''Sharpe_Ratio'' = Some (sharpe_ratio summary) \<and>
       nums latest ''Max_Drawdown'' = Some (max_drawdown summary) \<and>
       nums latest ''Active_Return'' = Some (active_return summary)"
    apply (rule exI [of _ raw1])
    apply (rule exI [of _ "sort_values_Date raw1"])
    apply (rule exI [of _ latest1])
    apply (rule exI [of _ summary1])
    apply (intro conjI)
                  apply (rule a1)
                 apply (rule c1)
                apply (rule d1)
               apply (rule e1)
              apply (rule f1)
             apply (rule g1)
            apply (rule j1)
           apply (rule k1)
          apply (rule i1)
         apply (rule l1(1))
        apply (rule l1(2))
       apply (rule l1(3))
      apply (rule l1(4))
     apply (rule l1(5))
     apply (rule l1(6))
    apply (rule l1(7))
    done
  have "''Risk_Metrics'' \<in> set time_series_sheets"
    by (simp add: time_series_sheets_def)
  from sheet [OF this] obtain raw2 where
    a2: "excel_data ''Risk_Metrics'' = Some (Series raw2)" and
    b2: "\<forall>r \<in> set raw2. \<forall>s. Date r \<noteq> DateText s" and
    c2: "data p ''Risk_Metrics'' = Some (Series (sort_values_Date raw2))"
    by blast
  from summarise_latest_sorted [OF parts(4) c2] obtain latest2 summary2 where
    d2: "sort_values_Date raw2 \<noteq> []" and
    e2: "latest2 = last (sort_values_Date raw2)" and
    f2: "latest2 \<in> set raw2" and
    g2: "\<forall>r \<in> set raw2. date_le (Date r) (Date latest2)" and
    h2: "risk_of_row latest2 = Inr summary2" and
    i2: "p_risk_summary (processed_data p) = Some summary2"
    by blast
  note j2 = latest_when_dated [OF f2 g2]
  note k2 = latest_when_undated [OF f2 g2 b2]
  note l2 = risk_of_row_reads [OF h2]
  have 3: "\<exists>raw sorted_rows latest summary.
       excel_data ''Risk_Metrics'' = Some (Series raw) \<and>
       data p ''Risk_Metrics'' = Some (Series sorted_rows) \<and>
       sorted_rows \<noteq> [] \<and> latest = last sorted_rows \<and> latest \<in> set raw \<and>
       (\<forall>r \<in> set raw. date_le (Date r) (Date latest)) \<and>
       ((\<forall>r \<in> set raw. \<exists>t. Date r = DateAt t) \<longrightarrow>
          (\<exists>t. Date latest = DateAt t \<and> (\<forall>r \<in> set raw. \<exists>t'. Date r = DateAt t' \<and> t' \<le> t))) \<and>
       ((\<exists>r \<in> set raw. Date r = NaT) \<longrightarrow> Date latest = NaT) \<and>
       p_risk_summary (processed_data p) = Some summary \<and>
       nums latest ''Portfolio_Beta'' = Some (portfolio_beta summary) \<and>
       nums latest ''VaR_95'' = Some (var_95 summary) \<and>
       nums latest ''CVaR_95'' = Some (cvar_95 summary) \<and>
       nums latest ''Tracking_Error'' = Some (tracking_error summary) \<and>
       nums latest ''Correlation_Benchmark'' = Some (correlation_benchmark summary) \<and>
       nums latest ''Concentration_Risk'' = Some (concentration_risk summary) \<and>
       nums latest ''Liquidity_Score'' = Some (liquidity_score summary)"
    apply (rule exI [of _ raw2])
    apply (rule exI [of _ "sort_values_Date raw2"])
    apply (rule exI [of _ latest2])
    apply (rule exI [of _ summary2])
    apply (intro conjI)
                  apply (rule a2)
                 apply (rule c2)
                apply (rule d2)
               apply (rule e2)
              apply (rule f2)
             apply (rule g2)
            apply (rule j2)
           apply (rule k2)
          apply (rule i2)
         apply (rule l2(1))
        apply (rule l2(2))
       apply (rule l2(3))
      apply (rule l2(4))
     apply (rule l2(5))
     apply (rule l2(6))
    apply (rule l2(7))
    done
  show ?thesis
    apply (intro conjI)
      apply (rule 1)
     apply (rule 2)
    apply (rule 3)
    done
qed

subsection \<open>The example workbooks\<close>

lemma example_rows:
  "Date (perf_row day v) = DateAt day" "Date (risk_row day v) = DateAt day"
  "Date undated_row = NaT"
  "nums (perf_row day v) ''Portfolio_Value'' = Some v"
  "nums undated_row ''Portfolio_Value'' = Some 99"
  "nums (risk_row day v) ''Portfolio_Beta'' = Some v"
  by (simp_all add: perf_row_def risk_row_def undated_row_def)

lemma to_datetime_column_dated:
  assumes "\<And>r. set_cell (get_cell r) r = r"
    and "\<forall>r \<in> set rows. \<forall>s. get_cell r \<noteq> DateText s"
  shows "to_datetime_column get_cell set_cell rows = Inr rows"
  using assms by (simp add: to_datetime_column_Inr)

lemma example_dates:
  "to_datetime_column Inception_Date (\<lambda>d r. r\<lparr>Inception_Date := d\<rparr>) [example_overview] =
     Inr [example_overview]"
  "to_datetime_column Last_Updated (\<lambda>d r. r\<lparr>Last_Updated := d\<rparr>) [example_overview] =
     Inr [example_overview]"
  "to_datetime_column Purchase_Date (\<lambda>d r. r\<lparr>Purchase_Date := d\<rparr>) example_holdings =
     Inr example_holdings"
  "to_datetime_column Date (\<lambda>d r. r\<lparr>Date := d\<rparr>) [perf_row 3 30, perf_row 1 10, perf_row 2 20] =
     Inr [perf_row 3 30, perf_row 1 10, perf_row 2 20]"
  "to_datetime_column Date (\<lambda>d r. r\<lparr>Date := d\<rparr>) [perf_row 3 30, undated_row] =
     Inr [perf_row 3 30, undated_row]"
  "to_datetime_column Date (\<lambda>d r. r\<lparr>Date := d\<rparr>) [risk_row 2 1, risk_row 5 2, risk_row 4 3] =
     Inr [risk_row 2 1, risk_row 5 2, risk_row 4 3]"
  "to_datetime_column Date (\<lambda>d r. r\<lparr>Date := d\<rparr>) [] = Inr []"
  by (rule to_datetime_column_dated;
      simp add: example_overview_def example_holdings_def stock_def example_rows)+

lemma example_sorts:
  "sort_values_Date [perf_row 3 30, perf_row 1 10, perf_row 2 20] =
     [perf_row 1 10, perf_row 2 20, perf_row 3 30]"
  "sort_values_Date [perf_row 3 30, undated_row] = [perf_row 3 30, undated_row]"
  "sort_values_Date [risk_row 2 1, risk_row 5 2, risk_row 4 3] =
     [risk_row 2 1, risk_row 4 3, risk_row 5 2]"
  "sort_values_Date [] = []"
  by (simp_all add: sort_values_Date_def example_rows)

lemma clean_example: "clean_data example_workbook = Inr example_cleaned"
  by (simp add: clean_data_def clean_overview_def clean_holdings_def time_series_sheets_def
      example_workbook_def example_cleaned_def py_bind_def example_dates example_sorts)

lemma clean_blank_date: "clean_data blank_date_workbook = Inr blank_date_cleaned"
  by (simp add: clean_data_def clean_overview_def clean_holdings_def time_series_sheets_def
      example_workbook_def blank_date_workbook_def blank_date_cleaned_def py_bind_def
      example_dates example_sorts)

lemma cleaned_lookup:
  "example_cleaned ''Portfolio_Overview'' = Some (Overview [clean_overview_row example_overview])"
  "example_cleaned ''Holdings_Detail'' = Some (Holdings (map clean_holding example_holdings))"
  "example_cleaned ''Historical_Performance'' =
     Some (Series [perf_row 1 10, perf_row 2 20, perf_row 3 30])"
  "example_cleaned ''Risk_Metrics'' = Some (Series [risk_row 2 1, risk_row 4 3, risk_row 5 2])"
  by (simp_all add: example_cleaned_def)

lemma blank_date_lookup:
  "blank_date_cleaned ''Portfolio_Overview'' =
     Some (Overview [clean_overview_row example_overview])"
  "blank_date_cleaned ''Holdings_Detail'' = Some (Holdings (map clean_holding example_holdings))"
  "blank_date_cleaned ''Historical_Performance'' = Some (Series [perf_row 3 30, undated_row])"
  "blank_date_cleaned ''Risk_Metrics'' =
     Some (Series [risk_row 2 1, risk_row 4 3, risk_row 5 2])"
  by (simp_all add: blank_date_cleaned_def)

lemma cleaned_holdings:
  "map clean_holding example_holdings =
     [stock ''A'' ''Tech'' (Num 50), stock ''B'' ''Bank'' (Num 70),
      stock ''C'' ''Tech'' NaN, stock ''D'' ''Tech'' (Num 20),
      stock ''E'' ''Bank'' (Num 90), stock ''F'' ''Auto'' (Num 10),
      stock ''G'' ''Auto'' (Num 60), stock ''H'' ''Tech'' (Num 80),
      stock ''I'' ''Bank'' (Num 30), stock ''J'' ''Tech'' (Num 40),
      stock ''K'' ''Auto'' (Num 5), stock ''L'' ''Bank'' (Num 15)]"
  by (simp add: example_holdings_def stock_def clean_holding_def)

lemma clean_holding_numeric: "is_numeric (Market_Value (clean_holding h))"
  by (cases "Market_Value h") (simp_all add: clean_holding_def)

lemma stock_simps:
  "Market_Value (stock name sector mv) = mv" "Sector (stock name sector mv) = sector"
  by (simp_all add: stock_def)

lemma top_example: "nlargest 10 (map clean_holding example_holdings) = Inr example_top"
proof -
  have "example_top =
     [stock ''E'' ''Bank'' (Num 90), stock ''H'' ''Tech'' (Num 80),
        stock ''B'' ''Bank'' (Num 70), stock ''G'' ''Auto'' (Num 60),
        stock ''A'' ''Tech'' (Num 50), stock ''J'' ''Tech'' (Num 40),
        stock ''I'' ''Bank'' (Num 30), stock ''D'' ''Tech'' (Num 20),
        stock ''L'' ''Bank'' (Num 15), stock ''F'' ''Auto'' (Num 10)]"
    by (simp add: example_top_def stock_def clean_holding_def)
  then show ?thesis
    unfolding cleaned_holdings
    by (simp add: nlargest_def by_market_value_def has_value_def market_value_def stock_simps)
qed

lemma top_records_example:
  "map holding_record example_top =
     [example_record ''E'' ''Bank'' 90, example_record ''H'' ''Tech'' 80,
      example_record ''B'' ''Bank'' 70, example_record ''G'' ''Auto'' 60,
      example_record ''A'' ''Tech'' 50, example_record ''J'' ''Tech'' 40,
      example_record ''I'' ''Bank'' 30, example_record ''D'' ''Tech'' 20,
      example_record ''L'' ''Bank'' 15, example_record ''F'' ''Auto'' 10]"
  by (simp add: example_top_def stock_def clean_holding_def holding_record_def
      example_record_def)

lemma sectors_example:
  "group_sectors (map clean_holding example_holdings) =
     [(''Bank'', 205), (''Tech'', 190), (''Auto'', 75)]"
  unfolding cleaned_holdings
  by (simp add: group_sectors_def sector_sum_def column_sum_def stock_simps)

lemma metrics_of_sheets:
  assumes "wb ''Portfolio_Overview'' = Some (Overview [clean_overview_row example_overview])"
    and "wb ''Holdings_Detail'' = Some (Holdings (map clean_holding example_holdings))"
    and "wb ''Historical_Performance'' = Some (Series rows)"
    and "wb ''Risk_Metrics'' = Some (Series [risk_row 2 1, risk_row 4 3, risk_row 5 2])"
    and "rows \<noteq> []" and "performance_of_row (last rows) = Inr perf"
  shows "calculate_metrics wb =
     Inr (example_processed\<lparr>p_performance_summary := Some perf\<rparr>)"
proof -
  have 1: "summarise_portfolio wb = Inr (p_portfolio_summary example_processed)"
    by (simp add: summarise_portfolio_def assms iloc_first_def py_bind_def
        cleaned_holdings stock_simps column_sum_def example_processed_def
        clean_overview_row_def example_overview_def)
  have 2: "summarise_top_holdings wb = Inr (p_top_holdings example_processed)"
    by (simp add: summarise_top_holdings_def assms top_example py_bind_def
        top_records_example example_processed_def)
  have 3: "summarise_sectors wb = Inr (p_sector_allocation example_processed)"
    by (simp add: summarise_sectors_def assms sectors_example example_processed_def
        clean_holding_numeric)
  have 4: "summarise_latest wb ''Historical_Performance'' performance_of_row = Inr (Some perf)"
    by (simp add: summarise_latest_def assms iloc_last_def py_bind_def)
  have 5: "summarise_latest wb ''Risk_Metrics'' risk_of_row =
      Inr (p_risk_summary example_processed)"
    by (simp add: summarise_latest_def assms iloc_last_def py_bind_def
        risk_of_row_def col_def risk_row_def example_processed_def)
  show ?thesis
    by (simp add: calculate_metrics_def 1 2 3 4 5 py_bind_def example_processed_def)
qed

lemma metrics_example: "calculate_metrics example_cleaned = Inr example_processed"
proof -
  have "performance_of_row (last [perf_row 1 10, perf_row 2 20, perf_row 3 30]) =
      Inr \<lparr>current_value = 30, total_return = 3 / 10, daily_return = 0, volatility = 1 / 5,
           sharpe_ratio = 1, max_drawdown = - (1 / 10), active_return = 0\<rparr>"
    by (simp add: performance_of_row_def col_def perf_row_def py_bind_def)
  from metrics_of_sheets [OF cleaned_lookup _ this] show ?thesis
    by (simp add: example_processed_def)
qed

lemma metrics_blank_date: "calculate_metrics blank_date_cleaned = Inr blank_date_processed"
proof -
  have "performance_of_row (last [perf_row 3 30, undated_row]) =
      Inr \<lparr>current_value = 99, total_return = 99 / 100, daily_return = 0, volatility = 1 / 5,
           sharpe_ratio = 1, max_drawdown = - (1 / 10), active_return = 0\<rparr>"
    by (simp add: performance_of_row_def col_def perf_row_def undated_row_def py_bind_def)
  from metrics_of_sheets [OF blank_date_lookup _ this] show ?thesis
    by (simp add: blank_date_processed_def)
qed

lemma load_example:
  "load_excel_file example_workbook =
     Inr \<lparr>data = example_cleaned, processed_data = example_processed\<rparr>"
proof -
  have "validate_sheets expected_sheets example_workbook = Inr ()"
    by (simp add: validate_sheets_ok expected_sheets_def example_workbook_def)
  then show ?thesis
    by (simp add: load_excel_file_def clean_example metrics_example py_bind_def)
qed

lemma load_blank_date:
  "load_excel_file blank_date_workbook =
     Inr \<lparr>data = blank_date_cleaned, processed_data = blank_date_processed\<rparr>"
proof -
  have "validate_sheets expected_sheets blank_date_workbook = Inr ()"
    by (simp add: validate_sheets_ok expected_sheets_def example_workbook_def
        blank_date_workbook_def)
  then show ?thesis
    by (simp add: load_excel_file_def clean_blank_date metrics_blank_date py_bind_def)
qed

lemma workbook_lookup:
  "example_workbook ''Historical_Performance'' =
     Some (Series [perf_row 3 30, perf_row 1 10, perf_row 2 20])"
  "example_workbook ''Risk_Metrics'' = Some (Series [risk_row 2 1, risk_row 5 2, risk_row 4 3])"
  "blank_date_workbook ''Historical_Performance'' = Some (Series [perf_row 3 30, undated_row])"
  by (simp_all add: example_workbook_def blank_date_workbook_def)

theorem top_holdings_and_sector_allocation_witness:
  "load_excel_file example_workbook =
     Inr \<lparr>data = example_cleaned, processed_data = example_processed\<rparr> \<and>
   length example_holdings = 12 \<and>
   p_top_holdings example_processed =
     Some [example_record ''E'' ''Bank'' 90, example_record ''H'' ''Tech'' 80,
           example_record ''B'' ''Bank'' 70, example_record ''G'' ''Auto'' 60,
           example_record ''A'' ''Tech'' 50, example_record ''J'' ''Tech'' 40,
           example_record ''I'' ''Bank'' 30, example_record ''D'' ''Tech'' 20,
           example_record ''L'' ''Bank'' 15, example_record ''F'' ''Auto'' 10] \<and>
   example_record ''E'' ''Bank'' 90 =
     [(''Asset_Name'', StrV ''E''), (''Ticker_Symbol'', StrV ''E''),
      (''Market_Value'', CellV (Num 90)), (''Weight_Percent'', CellV (Num (1 / 4))),
      (''Sector'', StrV ''Bank'')] \<and>
   p_sector_allocation example_processed =
     Some [(''Bank'', 205), (''Tech'', 190), (''Auto'', 75)]"
  using top_holdings_and_sector_allocation [OF load_example]
  by (simp add: load_example example_processed_def example_holdings_def example_record_def)

theorem summaries_from_latest_rows_witness:
  "load_excel_file example_workbook =
     Inr \<lparr>data = example_cleaned, processed_data = example_processed\<rparr> \<and>
   example_workbook ''Historical_Performance'' =
     Some (Series [perf_row 3 30, perf_row 1 10, perf_row 2 20]) \<and>
   example_cleaned ''Historical_Performance'' =
     Some (Series [perf_row 1 10, perf_row 2 20, perf_row 3 30]) \<and>
   Date (perf_row 3 30) = DateAt 3 \<and> nums (perf_row 3 30) ''Portfolio_Value'' = Some 30 \<and>
   p_performance_summary example_processed =
     Some \<lparr>current_value = 30, total_return = 3 / 10, daily_return = 0, volatility = 1 / 5,
           sharpe_ratio = 1, max_drawdown = - (1 / 10), active_return = 0\<rparr> \<and>
   example_workbook ''Risk_Metrics'' =
     Some (Series [risk_row 2 1, risk_row 5 2, risk_row 4 3]) \<and>
   example_cleaned ''Risk_Metrics'' =
     Some (Series [risk_row 2 1, risk_row 4 3, risk_row 5 2]) \<and>
   Date (risk_row 5 2) = DateAt 5 \<and> nums (risk_row 5 2) ''Portfolio_Beta'' = Some 2 \<and>
   p_risk_summary example_processed =
     Some \<lparr>portfolio_beta = 2, var_95 = 1000, cvar_95 = 1500, tracking_error = 0,
           correlation_benchmark = 1, concentration_risk = 0, liquidity_score = 8\<rparr>"
  using summaries_from_latest_rows [OF load_example]
  by (simp only: load_example workbook_lookup cleaned_lookup example_rows)
    (simp add: example_processed_def)

text \<open>
  C5 as stated fails on a sheet with a blank \<open>Date\<close> cell. The Historical\_Performance
  sheet below has a row dated day 3 with portfolio value 30 and a row with no date and
  portfolio value 99. The load succeeds, the sort puts the undated row last, and the
  performance summary is read from it, not from the row with the latest date.
\<close>

theorem summary_from_undated_row:
  "load_excel_file blank_date_workbook =
     Inr \<lparr>data = blank_date_cleaned, processed_data = blank_date_processed\<rparr> \<and>
   blank_date_workbook ''Historical_Performance'' =
     Some (Series [perf_row 3 30, undated_row]) \<and>
   Date (perf_row 3 30) = DateAt 3 \<and> nums (perf_row 3 30) ''Portfolio_Value'' = Some 30 \<and>
   Date undated_row = NaT \<and> nums undated_row ''Portfolio_Value'' = Some 99 \<and>
   p_performance_summary blank_date_processed =
     Some \<lparr>current_value = 99, total_return = 99 / 100, daily_return = 0, volatility = 1 / 5,
           sharpe_ratio = 1, max_drawdown = - (1 / 10), active_return = 0\<rparr>"
  by (simp add: load_blank_date workbook_lookup example_rows blank_date_processed_def)

end
